theory Spec2Isabelle
  imports Complex_Main
begin

section \<open>Data model\<close>

text \<open>
  The file \<^verbatim>\<open>particle_filter.cpp\<close> holds two revisions of the same class, one after the
  other. Both are embedded; a constant ending in \<open>_r1\<close> belongs to the first revision
  (lines 1 to 305), one ending in \<open>_r2\<close> to the second (lines 306 to 737), and a constant
  without suffix is code that is the same in both. C++ \<^verbatim>\<open>double\<close> values are idealised
  as \<^typ>\<open>real\<close>: rounding, overflow to infinity and NaN are outside the model.
\<close>

text \<open>
  Modelled from the spec: the struct declarations live in \<^verbatim>\<open>particle_filter.h\<close>,
  \<^verbatim>\<open>helper_functions.h\<close> and \<^verbatim>\<open>map.h\<close>, which are not part of the sources. The
  fields below are the ones the source file reads and writes, with the types the
  specification's data model gives them. Field names carry a prefix (\<open>p_\<close> for a particle,
  \<open>o_\<close> for an observation) because a record field is a global constant.
\<close>

record Particle =
  p_id :: int
  p_x :: real
  p_y :: real
  p_theta :: real
  p_weight :: real
  p_associations :: "int list"
  p_sense_x :: "real list"
  p_sense_y :: "real list"

record LandmarkObs =
  o_id :: int
  o_x :: real
  o_y :: real

record single_landmark_s =
  id_i :: int
  x_f :: real
  y_f :: real

text \<open>
  The random engines of the source (\<^verbatim>\<open>default_random_engine gen\<close>) are modelled by the
  sequence of values they deliver: \<open>gauss k mu sigma\<close> is the \<open>k\<close>-th sample drawn in the
  current call, from a normal distribution with mean \<open>mu\<close> and standard deviation
  \<open>sigma\<close>. The sampler is a parameter of every operation that draws.
\<close>

type_synonym sampler = "nat \<Rightarrow> real \<Rightarrow> real \<Rightarrow> real"

section \<open>Prediction\<close>

text \<open>
  Lines 100 to 120 (revision 1) and 426 to 446 (revision 2): the kinematic update of one
  particle, before any noise is added. The two revisions agree token for token here.
\<close>

definition motion_model :: "real \<Rightarrow> real \<Rightarrow> real \<Rightarrow> Particle \<Rightarrow> Particle" where
  "motion_model delta_t velocity yaw_rate p =
     (let prev_theta = p_theta p;
          p1 = (if \<bar>yaw_rate\<bar> > 0.0001
                then p\<lparr>p_x := p_x p + (velocity / yaw_rate) *
                               (sin (prev_theta + yaw_rate * delta_t) - sin prev_theta),
                       p_y := p_y p + (velocity / yaw_rate) *
                               (cos prev_theta - cos (prev_theta + yaw_rate * delta_t))\<rparr>
                else p\<lparr>p_x := p_x p + velocity * delta_t * cos prev_theta,
                       p_y := p_y p + velocity * delta_t * sin prev_theta\<rparr>)
      in p1\<lparr>p_theta := prev_theta + yaw_rate * delta_t\<rparr>)"

text \<open>
  Lines 130 to 132 and 449 to 451: three samples per particle, in the order x, y, theta.
  The particle with index \<open>par_index\<close> receives the samples \<open>3 * par_index\<close>,
  \<open>3 * par_index + 1\<close> and \<open>3 * par_index + 2\<close> of the engine.
\<close>

definition add_noise :: "sampler \<Rightarrow> real \<times> real \<times> real \<Rightarrow> nat \<Rightarrow> Particle \<Rightarrow> Particle" where
  "add_noise gauss std_pos par_index p =
     (case std_pos of (std_x, std_y, std_theta) \<Rightarrow>
        p\<lparr>p_x := p_x p + gauss (3 * par_index) 0 std_x,
          p_y := p_y p + gauss (3 * par_index + 1) 0 std_y,
          p_theta := p_theta p + gauss (3 * par_index + 2) 0 std_theta\<rparr>)"

fun prediction_loop ::
  "sampler \<Rightarrow> real \<Rightarrow> real \<times> real \<times> real \<Rightarrow> real \<Rightarrow> real \<Rightarrow> nat \<Rightarrow> Particle list \<Rightarrow> Particle list"
where
  "prediction_loop gauss delta_t std_pos velocity yaw_rate par_index [] = []"
| "prediction_loop gauss delta_t std_pos velocity yaw_rate par_index (p # ps) =
     add_noise gauss std_pos par_index (motion_model delta_t velocity yaw_rate p)
       # prediction_loop gauss delta_t std_pos velocity yaw_rate (Suc par_index) ps"

definition prediction ::
  "sampler \<Rightarrow> real \<Rightarrow> real \<times> real \<times> real \<Rightarrow> real \<Rightarrow> real \<Rightarrow> Particle list \<Rightarrow> Particle list"
where
  "prediction gauss delta_t std_pos velocity yaw_rate particles =
     prediction_loop gauss delta_t std_pos velocity yaw_rate 0 particles"

section \<open>Vehicle to map coordinates\<close>

text \<open>
  Revision 1, lines 285 to 305: the observation is passed by reference and overwritten
  field by field. The second assignment reads \<^verbatim>\<open>observation.x\<close> after the first one has
  written it.
\<close>

definition convertVehicleToMapCoords_r1 :: "LandmarkObs \<Rightarrow> Particle \<Rightarrow> LandmarkObs" where
  "convertVehicleToMapCoords_r1 observation particle =
     (let obs1 = observation\<lparr>o_x := p_x particle
                                   + o_x observation * cos (p_theta particle)
                                   - o_y observation * sin (p_theta particle)\<rparr>;
          obs2 = obs1\<lparr>o_y := p_y particle
                            + o_x obs1 * sin (p_theta particle)
                            + o_y obs1 * cos (p_theta particle)\<rparr>
      in obs2)"

text \<open>Revision 2, lines 668 to 691: a fresh observation is built from the argument.\<close>

definition convertVehicleToMapCoords_r2 :: "LandmarkObs \<Rightarrow> Particle \<Rightarrow> LandmarkObs" where
  "convertVehicleToMapCoords_r2 observationToConvert particle =
     \<lparr>o_id = o_id observationToConvert,
      o_x = p_x particle
            + o_x observationToConvert * cos (p_theta particle)
            - o_y observationToConvert * sin (p_theta particle),
      o_y = p_y particle
            + o_x observationToConvert * sin (p_theta particle)
            + o_y observationToConvert * cos (p_theta particle)\<rparr>"

section \<open>Landmark association\<close>

datatype error = IndexOutOfRange | UninitialisedIndex

text \<open>
  The class \<^verbatim>\<open>Map\<close> is used only through its member \<^verbatim>\<open>landmark_list\<close>, a vector
  of landmarks; the model passes that list where the source passes the map.
\<close>

type_synonym landmark_list = "single_landmark_s list"

text \<open>
  Modelled from the spec: \<^verbatim>\<open>dist\<close> is declared in \<^verbatim>\<open>helper_functions.h\<close>, which is not
  part of the sources; the specification calls it the Euclidean distance of two points.
  (The name carries a suffix because \<open>dist\<close> is the metric of HOL.)
\<close>

definition dist2d :: "real \<Rightarrow> real \<Rightarrow> real \<Rightarrow> real \<Rightarrow> real" where
  "dist2d x1 y1 x2 y2 = sqrt ((x2 - x1) * (x2 - x1) + (y2 - y1) * (y2 - y1))"

text \<open>The distance that both association loops compute for a landmark.\<close>

abbreviation distance_to :: "LandmarkObs \<Rightarrow> single_landmark_s \<Rightarrow> real" where
  "distance_to observation l \<equiv> dist2d (x_f l) (y_f l) (o_x observation) (o_y observation)"

text \<open>The largest finite \<^verbatim>\<open>double\<close> of \<^verbatim>\<open><cfloat>\<close>.\<close>

definition DBL_MAX :: real where
  "DBL_MAX = (2 ^ 53 - 1) * 2 ^ 971"

text \<open>
  Revision 1, lines 137 to 167. The loop runs over the whole map; \<open>land_index\<close> counts
  the landmarks seen so far, \<open>minDistance\<close> and \<open>indexOfLandmark\<close> are the two local
  variables. The result is an index into the map.
\<close>

fun dataAssociation_loop_r1 ::
  "real \<Rightarrow> landmark_list \<Rightarrow> LandmarkObs \<Rightarrow> nat \<Rightarrow> real \<Rightarrow> nat \<Rightarrow> nat"
where
  "dataAssociation_loop_r1 sensor_range [] observation land_index minDistance indexOfLandmark =
     indexOfLandmark"
| "dataAssociation_loop_r1 sensor_range (l # ls) observation land_index minDistance indexOfLandmark =
     (let currentDistance = dist2d (x_f l) (y_f l) (o_x observation) (o_y observation)
      in if currentDistance \<le> sensor_range
         then (if currentDistance \<le> minDistance
               then dataAssociation_loop_r1 sensor_range ls observation (Suc land_index)
                      currentDistance land_index
               else dataAssociation_loop_r1 sensor_range ls observation (Suc land_index)
                      minDistance indexOfLandmark)
         else dataAssociation_loop_r1 sensor_range ls observation (Suc land_index)
                minDistance indexOfLandmark)"

definition dataAssociation_r1 :: "real \<Rightarrow> landmark_list \<Rightarrow> LandmarkObs \<Rightarrow> nat" where
  "dataAssociation_r1 sensor_range landmarks observation =
     dataAssociation_loop_r1 sensor_range landmarks observation 0 DBL_MAX 0"

text \<open>
  Revision 2, lines 465 to 484: the inner loop for one observation. \<open>indexOfLandmark\<close> is
  declared without a value, so it is \<open>None\<close> until the loop assigns it.
\<close>

fun nearest_loop_r2 ::
  "landmark_list \<Rightarrow> LandmarkObs \<Rightarrow> nat \<Rightarrow> real \<Rightarrow> nat option \<Rightarrow> nat option"
where
  "nearest_loop_r2 [] observation land_index minDistance indexOfLandmark = indexOfLandmark"
| "nearest_loop_r2 (l # ls) observation land_index minDistance indexOfLandmark =
     (let currentDistance = dist2d (x_f l) (y_f l) (o_x observation) (o_y observation)
      in if currentDistance \<le> minDistance
         then nearest_loop_r2 ls observation (Suc land_index) currentDistance (Some land_index)
         else nearest_loop_r2 ls observation (Suc land_index) minDistance indexOfLandmark)"

definition nearest_r2 :: "landmark_list \<Rightarrow> LandmarkObs \<Rightarrow> nat option" where
  "nearest_r2 landmarks observation = nearest_loop_r2 landmarks observation 0 DBL_MAX None"

text \<open>
  Revision 2, lines 456 to 495: one associated landmark per observation, in the order of
  the observations. Reading \<^verbatim>\<open>landmarks[indexOfLandmark]\<close> with the index never assigned
  is undefined behaviour in C++; the model returns the error \<open>UninitialisedIndex\<close> there.
\<close>

fun dataAssociation_r2 :: "landmark_list \<Rightarrow> LandmarkObs list \<Rightarrow> error + LandmarkObs list" where
  "dataAssociation_r2 landmarks [] = Inr []"
| "dataAssociation_r2 landmarks (observation # observations) =
     (case nearest_r2 landmarks observation of
        None \<Rightarrow> Inl UninitialisedIndex
      | Some indexOfLandmark \<Rightarrow>
          (if indexOfLandmark < length landmarks
           then (let closestLandmark = \<lparr>o_id = id_i (landmarks ! indexOfLandmark),
                                        o_x = x_f (landmarks ! indexOfLandmark),
                                        o_y = y_f (landmarks ! indexOfLandmark)\<rparr>
                 in case dataAssociation_r2 landmarks observations of
                      Inl e \<Rightarrow> Inl e
                    | Inr associatedLandmarks \<Rightarrow> Inr (closestLandmark # associatedLandmarks))
           else Inl IndexOutOfRange))"

section \<open>Weight update\<close>

text \<open>
  Lines 198 to 215 and 566 to 582: the density of one observation, from the two standard
  deviations and the two differences between landmark and observation.
\<close>

definition multi_gaussian :: "real \<times> real \<Rightarrow> real \<Rightarrow> real \<Rightarrow> real" where
  "multi_gaussian std_landmark diff_x diff_y =
     (case std_landmark of (std_x, std_y) \<Rightarrow>
        (let var_x = std_x * std_x;
             var_y = std_y * std_y;
             sq_diff_x = diff_x * diff_x;
             sq_diff_y = diff_y * diff_y
         in (1 / (2 * pi * std_x * std_y)) *
            exp (- (sq_diff_x / (2 * var_x) + sq_diff_y / (2 * var_y)))))"

text \<open>
  Revision 1, lines 179 to 218: the loop over the observations for one particle. The
  particle's weight is multiplied by each density in turn. The map is indexed with the
  result of the association; on an empty map this index is out of range.
\<close>

fun observations_loop_r1 ::
  "real \<Rightarrow> real \<times> real \<Rightarrow> LandmarkObs list \<Rightarrow> landmark_list \<Rightarrow> Particle \<Rightarrow> error + Particle"
where
  "observations_loop_r1 sensor_range std_landmark [] map_landmarks particle = Inr particle"
| "observations_loop_r1 sensor_range std_landmark (observation # observations) map_landmarks particle =
     (let current_obs = convertVehicleToMapCoords_r1 observation particle;
          land_index = dataAssociation_r1 sensor_range map_landmarks current_obs
      in if land_index < length map_landmarks
         then observations_loop_r1 sensor_range std_landmark observations map_landmarks
                (particle\<lparr>p_weight := p_weight particle *
                   multi_gaussian std_landmark
                     (x_f (map_landmarks ! land_index) - o_x current_obs)
                     (y_f (map_landmarks ! land_index) - o_y current_obs)\<rparr>)
         else Inl IndexOutOfRange)"

fun updateWeights_r1 ::
  "real \<Rightarrow> real \<times> real \<Rightarrow> LandmarkObs list \<Rightarrow> landmark_list \<Rightarrow> Particle list
   \<Rightarrow> error + Particle list"
where
  "updateWeights_r1 sensor_range std_landmark observations map_landmarks [] = Inr []"
| "updateWeights_r1 sensor_range std_landmark observations map_landmarks (p # ps) =
     (case observations_loop_r1 sensor_range std_landmark observations map_landmarks p of
        Inl e \<Rightarrow> Inl e
      | Inr p' \<Rightarrow>
          (case updateWeights_r1 sensor_range std_landmark observations map_landmarks ps of
             Inl e \<Rightarrow> Inl e
           | Inr ps' \<Rightarrow> Inr (p' # ps')))"

text \<open>
  Revision 2, lines 553 to 583: the product of the densities, accumulated in the local
  variable \<open>multi_gaussian\<close>, which starts at 1. The loop runs over the associated
  landmarks and reads the converted observation of the same index; the two vectors have
  the same length, since the association returns one landmark per observation.
\<close>

fun weight_loop_r2 :: "real \<times> real \<Rightarrow> LandmarkObs list \<Rightarrow> LandmarkObs list \<Rightarrow> real \<Rightarrow> real" where
  "weight_loop_r2 std_landmark (a # associatedLandmarks) (c # convertedObservations) acc =
     weight_loop_r2 std_landmark associatedLandmarks convertedObservations
       (acc * multi_gaussian std_landmark (o_x a - o_x c) (o_y a - o_y c))"
| "weight_loop_r2 std_landmark associatedLandmarks convertedObservations acc = acc"

text \<open>Revision 2, lines 515 to 586: the body of the loop over the particles.\<close>

definition updateWeight_r2 ::
  "real \<Rightarrow> real \<times> real \<Rightarrow> LandmarkObs list \<Rightarrow> landmark_list \<Rightarrow> Particle \<Rightarrow> error + Particle"
where
  "updateWeight_r2 sensor_range std_landmark observations map_landmarks particle =
     (let predicted_landmarks =
            filter (\<lambda>l. dist2d (p_x particle) (p_y particle) (x_f l) (y_f l) \<le> sensor_range)
                   map_landmarks;
          convertedObservations =
            map (\<lambda>observation. convertVehicleToMapCoords_r2 observation particle) observations
      in case dataAssociation_r2 predicted_landmarks convertedObservations of
           Inl e \<Rightarrow> Inl e
         | Inr associatedLandmarks \<Rightarrow>
             Inr (particle\<lparr>p_weight :=
                    weight_loop_r2 std_landmark associatedLandmarks convertedObservations 1\<rparr>))"

fun updateWeights_r2 ::
  "real \<Rightarrow> real \<times> real \<Rightarrow> LandmarkObs list \<Rightarrow> landmark_list \<Rightarrow> Particle list
   \<Rightarrow> error + Particle list"
where
  "updateWeights_r2 sensor_range std_landmark observations map_landmarks [] = Inr []"
| "updateWeights_r2 sensor_range std_landmark observations map_landmarks (p # ps) =
     (case updateWeight_r2 sensor_range std_landmark observations map_landmarks p of
        Inl e \<Rightarrow> Inl e
      | Inr p' \<Rightarrow>
          (case updateWeights_r2 sensor_range std_landmark observations map_landmarks ps of
             Inl e \<Rightarrow> Inl e
           | Inr ps' \<Rightarrow> Inr (p' # ps')))"

text \<open>
  A value for comparing the two revisions, not a function of the source: the density of
  a map-frame observation against the landmark that \<open>nearest_r2\<close> finds in the whole
  map.
\<close>

definition nearest_density :: "landmark_list \<Rightarrow> real \<times> real \<Rightarrow> LandmarkObs \<Rightarrow> real" where
  "nearest_density map_landmarks std_landmark c =
     (case nearest_r2 map_landmarks c of
        None \<Rightarrow> 1
      | Some i \<Rightarrow> multi_gaussian std_landmark (x_f (map_landmarks ! i) - o_x c)
                                              (y_f (map_landmarks ! i) - o_y c))"

text \<open>
  The condition under which the range tests of the two revisions select the same
  landmark for the map-frame observation \<open>c\<close> of the particle \<open>p\<close>: the landmark
  of the map nearest to \<open>c\<close> (the last one, if several are equally near) is at a finite
  distance, within the sensor range of \<open>c\<close> (the test of revision 1) and within the
  sensor range of \<open>p\<close> (the test of revision 2).
\<close>

definition nearest_within :: "real \<Rightarrow> landmark_list \<Rightarrow> Particle \<Rightarrow> LandmarkObs \<Rightarrow> bool" where
  "nearest_within sensor_range map_landmarks p c =
     (\<exists>i<length map_landmarks.
        (\<forall>j<length map_landmarks.
           distance_to c (map_landmarks ! i) \<le> distance_to c (map_landmarks ! j))
      \<and> (\<forall>j<length map_landmarks.
           distance_to c (map_landmarks ! j) = distance_to c (map_landmarks ! i) \<longrightarrow> j \<le> i)
      \<and> distance_to c (map_landmarks ! i) \<le> sensor_range
      \<and> distance_to c (map_landmarks ! i) \<le> DBL_MAX
      \<and> dist2d (p_x p) (p_y p) (x_f (map_landmarks ! i)) (y_f (map_landmarks ! i))
            \<le> sensor_range)"

section \<open>Resampling\<close>

text \<open>
  Lines 223 to 269 and 591 to 628, the same in both revisions.
  \<^verbatim>\<open>std::discrete_distribution\<close> belongs to the C++ standard library: built from the
  weights \<open>w\<close>, it delivers the index \<open>i\<close> with probability \<open>w ! i / sum_list w\<close>. The
  model takes the delivered indices as a parameter: \<open>weights_dist w k\<close> is the \<open>k\<close>-th
  index drawn from the distribution built from \<open>w\<close>, and \<open>discrete_mass\<close> is the
  probability function that tells which indices can be drawn at all.
\<close>

definition discrete_mass :: "real list \<Rightarrow> nat \<Rightarrow> real" where
  "discrete_mass weights i = weights ! i / sum_list weights"

fun resample_loop :: "(nat \<Rightarrow> nat) \<Rightarrow> Particle list \<Rightarrow> nat \<Rightarrow> nat \<Rightarrow> error + Particle list" where
  "resample_loop draw particlesCopy par_index 0 = Inr []"
| "resample_loop draw particlesCopy par_index (Suc n) =
     (if draw par_index < length particlesCopy
      then (case resample_loop draw particlesCopy (Suc par_index) n of
              Inl e \<Rightarrow> Inl e
            | Inr rest \<Rightarrow> Inr (particlesCopy ! draw par_index # rest))
      else Inl IndexOutOfRange)"

definition resample :: "(real list \<Rightarrow> nat \<Rightarrow> nat) \<Rightarrow> Particle list \<Rightarrow> error + Particle list" where
  "resample weights_dist particles =
     (let particlesCopy = particles;
          weights = map p_weight particlesCopy
      in resample_loop (weights_dist weights) particlesCopy 0 (length particlesCopy))"

section \<open>Initialisation\<close>

text \<open>
  Modelled from the spec: the class declaration is in \<^verbatim>\<open>particle_filter.h\<close>, which is not
  part of the sources. The filter state is the particle collection, \<open>num_particles\<close> and
  the \<open>is_initialized\<close> flag; a filter that has just been constructed holds no particle.
\<close>

record ParticleFilter =
  num_particles :: nat
  is_initialized :: bool
  particles :: "Particle list"

definition new_filter :: ParticleFilter where
  "new_filter = \<lparr>num_particles = 0, is_initialized = False, particles = []\<rparr>"

text \<open>
  Lines 37 to 72 and 353 to 388: \<open>count\<close> is the number of iterations still to run. Each
  iteration draws three samples and appends one particle to the collection.
\<close>

fun init_loop ::
  "sampler \<Rightarrow> real \<Rightarrow> real \<Rightarrow> real \<Rightarrow> real \<times> real \<times> real \<Rightarrow> nat \<Rightarrow> nat \<Rightarrow> Particle list
   \<Rightarrow> Particle list"
where
  "init_loop gauss x y theta std par_index 0 ps = ps"
| "init_loop gauss x y theta std par_index (Suc count) ps =
     (case std of (std_x, std_y, std_theta) \<Rightarrow>
        (let sample_x = gauss (3 * par_index) x std_x;
             sample_y = gauss (3 * par_index + 1) y std_y;
             sample_theta = gauss (3 * par_index + 2) theta std_theta;
             new_particle = \<lparr>p_id = int par_index, p_x = sample_x, p_y = sample_y,
                             p_theta = sample_theta, p_weight = 1,
                             p_associations = [], p_sense_x = [], p_sense_y = []\<rparr>
         in init_loop gauss x y theta std (Suc par_index) count (ps @ [new_particle])))"

definition init_r1 ::
  "sampler \<Rightarrow> real \<Rightarrow> real \<Rightarrow> real \<Rightarrow> real \<times> real \<times> real \<Rightarrow> ParticleFilter \<Rightarrow> ParticleFilter"
where
  "init_r1 gauss x y theta std pf =
     pf\<lparr>num_particles := 100, is_initialized := True,
        particles := init_loop gauss x y theta std 0 100 (particles pf)\<rparr>"

definition init_r2 ::
  "sampler \<Rightarrow> real \<Rightarrow> real \<Rightarrow> real \<Rightarrow> real \<times> real \<times> real \<Rightarrow> ParticleFilter \<Rightarrow> ParticleFilter"
where
  "init_r2 gauss x y theta std pf =
     pf\<lparr>num_particles := 200, is_initialized := True,
        particles := init_loop gauss x y theta std 0 200 (particles pf)\<rparr>"

section \<open>Concrete inputs\<close>

text \<open>
  Inputs at which the theorems below are evaluated: an engine without spread (every
  sample is the mean of its distribution), a distribution whose every draw is index 1,
  one whose draws run through the indices from the last to the first, and particles, observations and landmarks with small coordinates.
\<close>

definition mean_sampler :: sampler where
  "mean_sampler k mu sigma = mu"

definition draw_second :: "real list \<Rightarrow> nat \<Rightarrow> nat" where
  "draw_second weights k = 1"

definition particle_at :: "real \<Rightarrow> real \<Rightarrow> real \<Rightarrow> real \<Rightarrow> Particle" where
  "particle_at x y theta weight =
     \<lparr>p_id = 0, p_x = x, p_y = y, p_theta = theta, p_weight = weight,
      p_associations = [], p_sense_x = [], p_sense_y = []\<rparr>"

definition three_particles :: "Particle list" where
  "three_particles = [particle_at 1 1 0 0, particle_at 2 2 0 1, particle_at 3 3 0 0]"

definition weighted_particles :: "Particle list" where
  "weighted_particles = [particle_at 1 1 0 1, particle_at 2 2 0 2, particle_at 3 3 0 3]"

definition draw_reverse :: "real list \<Rightarrow> nat \<Rightarrow> nat" where
  "draw_reverse weights k = length weights - 1 - k"

definition obs_at :: "real \<Rightarrow> real \<Rightarrow> LandmarkObs" where
  "obs_at x y = \<lparr>o_id = 0, o_x = x, o_y = y\<rparr>"

definition landmark_at :: "int \<Rightarrow> real \<Rightarrow> real \<Rightarrow> single_landmark_s" where
  "landmark_at i x y = \<lparr>id_i = i, x_f = x, y_f = y\<rparr>"

definition tie_landmarks :: landmark_list where
  "tie_landmarks = [landmark_at 1 1 0, landmark_at 2 (- 1) 0, landmark_at 3 2 0]"

definition far_near_landmarks :: landmark_list where
  "far_near_landmarks = [landmark_at 1 5 0, landmark_at 2 1 0]"

definition origin_and_two :: landmark_list where
  "origin_and_two = [landmark_at 1 0 0, landmark_at 2 2 0]"

section \<open>Properties of the prediction\<close>

lemma prediction_loop_length:
  "length (prediction_loop gauss delta_t std_pos velocity yaw_rate k ps) = length ps"
  by (induction ps arbitrary: k) simp_all

lemma prediction_loop_nth:
  "i < length ps \<Longrightarrow>
   prediction_loop gauss delta_t std_pos velocity yaw_rate k ps ! i =
     add_noise gauss std_pos (k + i) (motion_model delta_t velocity yaw_rate (ps ! i))"
proof (induction ps arbitrary: k i)
  case Nil
  then show ?case by simp
next
  case (Cons p ps)
  show ?case
  proof (cases i)
    case 0
    then show ?thesis by simp
  next
    case (Suc j)
    with Cons.prems have "j < length ps" by simp
    from Cons.IH [OF this, of "Suc k"] Suc show ?thesis by simp
  qed
qed

lemma add_noise_frame:
  "p_id (add_noise gauss std_pos k p) = p_id p"
  "p_weight (add_noise gauss std_pos k p) = p_weight p"
  "p_associations (add_noise gauss std_pos k p) = p_associations p"
  "p_sense_x (add_noise gauss std_pos k p) = p_sense_x p"
  "p_sense_y (add_noise gauss std_pos k p) = p_sense_y p"
  by (simp_all add: add_noise_def split: prod.splits)

lemma motion_model_frame:
  "p_id (motion_model delta_t velocity yaw_rate p) = p_id p"
  "p_weight (motion_model delta_t velocity yaw_rate p) = p_weight p"
  "p_associations (motion_model delta_t velocity yaw_rate p) = p_associations p"
  "p_sense_x (motion_model delta_t velocity yaw_rate p) = p_sense_x p"
  "p_sense_y (motion_model delta_t velocity yaw_rate p) = p_sense_y p"
  by (simp_all add: motion_model_def Let_def)

lemma prediction_map_frame:
  assumes "\<And>k p. f (add_noise gauss std_pos k (motion_model delta_t velocity yaw_rate p)) = f p"
  shows "map f (prediction gauss delta_t std_pos velocity yaw_rate ps) = map f ps"
  by (rule nth_equalityI)
     (simp_all add: prediction_def prediction_loop_length prediction_loop_nth assms)

text \<open>
  C5. For every particle and every control, the pose after \<open>prediction\<close> is the pose given
  by the kinematic formulas plus the noise sample of that particle and axis: with
  \<open>|yaw_rate| > 0.0001\<close> the curved formulas, otherwise the straight-line formulas, and in
  both branches \<open>theta + yaw_rate * delta_t\<close> for the heading.
\<close>

theorem prediction_kinematics:
  assumes "i < length ps"
  shows "p_x (prediction gauss delta_t (std_x, std_y, std_theta) velocity yaw_rate ps ! i) =
           (if \<bar>yaw_rate\<bar> > 0.0001
            then p_x (ps ! i) + (velocity / yaw_rate) *
                   (sin (p_theta (ps ! i) + yaw_rate * delta_t) - sin (p_theta (ps ! i)))
            else p_x (ps ! i) + velocity * delta_t * cos (p_theta (ps ! i)))
           + gauss (3 * i) 0 std_x
       \<and> p_y (prediction gauss delta_t (std_x, std_y, std_theta) velocity yaw_rate ps ! i) =
           (if \<bar>yaw_rate\<bar> > 0.0001
            then p_y (ps ! i) + (velocity / yaw_rate) *
                   (cos (p_theta (ps ! i)) - cos (p_theta (ps ! i) + yaw_rate * delta_t))
            else p_y (ps ! i) + velocity * delta_t * sin (p_theta (ps ! i)))
           + gauss (3 * i + 1) 0 std_y
       \<and> p_theta (prediction gauss delta_t (std_x, std_y, std_theta) velocity yaw_rate ps ! i) =
           p_theta (ps ! i) + yaw_rate * delta_t + gauss (3 * i + 2) 0 std_theta"
  using assms
  by (simp add: prediction_def prediction_loop_nth add_noise_def motion_model_def Let_def)

theorem prediction_kinematics_witness:
  "0 < length [particle_at 1 2 0 1]
   \<and> p_x (prediction mean_sampler (1/2) (0, 0, 0) pi pi [particle_at 1 2 0 1] ! 0) = 2
   \<and> p_y (prediction mean_sampler (1/2) (0, 0, 0) pi pi [particle_at 1 2 0 1] ! 0) = 3
   \<and> p_theta (prediction mean_sampler (1/2) (0, 0, 0) pi pi [particle_at 1 2 0 1] ! 0) = pi / 2"
proof -
  have big: "\<bar>pi\<bar> > (0.0001 :: real)"
    using pi_ge_two by simp
  show ?thesis
    using prediction_kinematics [of 0 "[particle_at 1 2 0 1]" mean_sampler "1/2" 0 0 0 pi pi] big
    by (simp add: particle_at_def mean_sampler_def)
qed

text \<open>
  C10. \<open>prediction\<close> changes only the pose: the number of particles and, in every
  particle, the fields id, weight, associations, sense_x and sense_y are as they were
  before the call.
\<close>

theorem prediction_frame:
  "length (prediction gauss delta_t std_pos velocity yaw_rate ps) = length ps
   \<and> map p_id (prediction gauss delta_t std_pos velocity yaw_rate ps) = map p_id ps
   \<and> map p_weight (prediction gauss delta_t std_pos velocity yaw_rate ps) = map p_weight ps
   \<and> map p_associations (prediction gauss delta_t std_pos velocity yaw_rate ps)
       = map p_associations ps
   \<and> map p_sense_x (prediction gauss delta_t std_pos velocity yaw_rate ps) = map p_sense_x ps
   \<and> map p_sense_y (prediction gauss delta_t std_pos velocity yaw_rate ps) = map p_sense_y ps"
  by (simp add: prediction_map_frame add_noise_frame motion_model_frame)
     (simp add: prediction_def prediction_loop_length)

section \<open>Properties of the coordinate transform\<close>

lemma sin_one_pos: "0 < sin (1::real)"
  using pi_ge_two by (intro sin_gt_zero) simp_all

lemma cos_one_less: "cos (1::real) < 1"
  using cos_monotone_0_pi [of 0 1] pi_ge_two by simp

lemma convertVehicleToMapCoords_r2_formula:
  "o_x (convertVehicleToMapCoords_r2 ob p) =
     p_x p + o_x ob * cos (p_theta p) - o_y ob * sin (p_theta p)"
  "o_y (convertVehicleToMapCoords_r2 ob p) =
     p_y p + o_x ob * sin (p_theta p) + o_y ob * cos (p_theta p)"
  by (simp_all add: convertVehicleToMapCoords_r2_def)

text \<open>
  C1. The claim asks for \<open>mapY = py + obsX * sin theta + obsY * cos theta\<close> with the
  original \<open>obsX\<close>. Revision 2 computes exactly this (lemma above). Revision 1 does not:
  at the particle \<open>(0, 0, theta = 1)\<close> and the observation \<open>(1, 0)\<close> its \<open>y\<close> is
  \<open>cos 1 * sin 1\<close>, built from the \<open>x\<close> it has just overwritten, where the formula of
  the claim gives \<open>sin 1\<close>.
\<close>

theorem convertVehicleToMapCoords_r1_reads_new_x:
  "o_y (convertVehicleToMapCoords_r1 (obs_at 1 0) (particle_at 0 0 1 1)) = cos 1 * sin 1
   \<and> p_y (particle_at 0 0 1 1) + o_x (obs_at 1 0) * sin (p_theta (particle_at 0 0 1 1))
        + o_y (obs_at 1 0) * cos (p_theta (particle_at 0 0 1 1)) = sin 1
   \<and> cos 1 * sin 1 \<noteq> sin (1::real)"
  using sin_one_pos cos_one_less
  by (simp add: convertVehicleToMapCoords_r1_def Let_def obs_at_def particle_at_def)

section \<open>Properties of the landmark association\<close>

lemma nearest_loop_r2_skip:
  "\<forall>l\<in>set ls. m < distance_to ob l \<Longrightarrow> nearest_loop_r2 ls ob k m b = b"
  by (induction ls arbitrary: k) (simp_all add: Let_def)

lemma nearest_loop_r2_spec:
  assumes "\<exists>l\<in>set ls. distance_to ob l \<le> m"
  shows "\<exists>i<length ls. nearest_loop_r2 ls ob k m b = Some (k + i)
           \<and> distance_to ob (ls ! i) \<le> m
           \<and> (\<forall>j<length ls. distance_to ob (ls ! i) \<le> distance_to ob (ls ! j))
           \<and> (\<forall>j<length ls. distance_to ob (ls ! j) = distance_to ob (ls ! i) \<longrightarrow> j \<le> i)"
  using assms
proof (induction ls arbitrary: k m b)
  case Nil
  then show ?case by simp
next
  case (Cons l ls)
  let ?d = "distance_to ob l"
  show ?case
  proof (cases "?d \<le> m")
    case near: True
    show ?thesis
    proof (cases "\<exists>l'\<in>set ls. distance_to ob l' \<le> ?d")
      case False
      then have far: "\<forall>l'\<in>set ls. ?d < distance_to ob l'" by auto
      then have "nearest_loop_r2 (l # ls) ob k m b = Some (k + 0)"
        using near by (simp add: Let_def nearest_loop_r2_skip)
      moreover have "\<forall>j<length ls. ?d < distance_to ob (ls ! j)"
        using far by simp
      ultimately show ?thesis
        using near by (intro exI [of _ 0]) (auto simp: All_less_Suc2 less_imp_le)
    next
      case True
      from Cons.IH [OF this, of "Suc k" "Some k"] obtain i where
        i: "i < length ls"
        and res: "nearest_loop_r2 ls ob (Suc k) ?d (Some k) = Some (Suc k + i)"
        and le: "distance_to ob (ls ! i) \<le> ?d"
        and least: "\<forall>j<length ls. distance_to ob (ls ! i) \<le> distance_to ob (ls ! j)"
        and last: "\<forall>j<length ls. distance_to ob (ls ! j) = distance_to ob (ls ! i) \<longrightarrow> j \<le> i"
        by blast
      have "nearest_loop_r2 (l # ls) ob k m b = Some (k + Suc i)"
        using near res by (simp add: Let_def)
      then show ?thesis
        using i le least last near by (intro exI [of _ "Suc i"]) (auto simp: All_less_Suc2)
    qed
  next
    case far: False
    with Cons.prems have "\<exists>l'\<in>set ls. distance_to ob l' \<le> m" by auto
    from Cons.IH [OF this, of "Suc k" b] obtain i where
      i: "i < length ls"
      and res: "nearest_loop_r2 ls ob (Suc k) m b = Some (Suc k + i)"
      and le: "distance_to ob (ls ! i) \<le> m"
      and least: "\<forall>j<length ls. distance_to ob (ls ! i) \<le> distance_to ob (ls ! j)"
      and last: "\<forall>j<length ls. distance_to ob (ls ! j) = distance_to ob (ls ! i) \<longrightarrow> j \<le> i"
      by blast
    have "nearest_loop_r2 (l # ls) ob k m b = Some (k + Suc i)"
      using far res by (simp add: Let_def)
    then show ?thesis
      using i le least last far by (intro exI [of _ "Suc i"]) (auto simp: All_less_Suc2)
  qed
qed

lemma nearest_loop_r2_assigned:
  "\<exists>i. nearest_loop_r2 ls ob k m (Some j) = Some i"
  by (induction ls arbitrary: k m j) (simp_all add: Let_def)

lemma dataAssociation_loop_r1_as_r2:
  "bo = None \<or> bo = Some b \<Longrightarrow>
   dataAssociation_loop_r1 r ls ob k m b =
     (case nearest_loop_r2 ls ob k (min r m) bo of None \<Rightarrow> b | Some i \<Rightarrow> i)"
proof (induction ls arbitrary: k m b bo)
  case Nil
  then show ?case by auto
next
  case (Cons l ls)
  let ?d = "distance_to ob l"
  show ?case
  proof (cases "?d \<le> r \<and> ?d \<le> m")
    case True
    then have "min r ?d = ?d" by simp
    moreover obtain i where "nearest_loop_r2 ls ob (Suc k) ?d (Some k) = Some i"
      using nearest_loop_r2_assigned by blast
    ultimately show ?thesis
      using True Cons.IH [of "Some k" k "Suc k" ?d] by (simp add: Let_def)
  next
    case False
    then have "\<not> ?d \<le> min r m" by auto
    with False Cons.IH [OF Cons.prems, of "Suc k" m] show ?thesis
      by (auto simp: Let_def)
  qed
qed

lemma nearest_loop_r2_distances:
  "map (distance_to ob) ls = map (distance_to ob') ls' \<Longrightarrow>
   nearest_loop_r2 ls ob k m b = nearest_loop_r2 ls' ob' k m b"
proof (induction ls arbitrary: ls' k m b)
  case Nil
  then show ?case by simp
next
  case (Cons l ls)
  then obtain l' rest where ls': "ls' = l' # rest" by (cases ls') auto
  with Cons.prems have d: "distance_to ob l = distance_to ob' l'"
    and rest: "map (distance_to ob) ls = map (distance_to ob') rest" by simp_all
  show ?case
    using Cons.IH [OF rest] d by (simp add: ls' Let_def)
qed


lemma dist2d_same_y: "dist2d x1 y x2 y = \<bar>x2 - x1\<bar>"
  by (simp add: dist2d_def)

lemma DBL_MAX_large: "50 \<le> DBL_MAX"
  by (simp add: DBL_MAX_def)

lemma last_nearest_unique:
  assumes "i < length ls" "i' < length ls"
    and "\<forall>j<length ls. distance_to ob (ls ! i) \<le> distance_to ob (ls ! j)"
    and "\<forall>j<length ls. distance_to ob (ls ! j) = distance_to ob (ls ! i) \<longrightarrow> j \<le> i"
    and "\<forall>j<length ls. distance_to ob (ls ! i') \<le> distance_to ob (ls ! j)"
    and "\<forall>j<length ls. distance_to ob (ls ! j) = distance_to ob (ls ! i') \<longrightarrow> j \<le> i'"
  shows "i = i'"
proof -
  have "distance_to ob (ls ! i) = distance_to ob (ls ! i')"
    using assms(1,2,3,5) by (intro antisym) simp_all
  with assms(1,2,4,6) have "i' \<le> i" "i \<le> i'" by simp_all
  then show ?thesis by simp
qed

lemma nearest_loop_r2_last_nearest:
  assumes "i < length ls"
    and "distance_to ob (ls ! i) \<le> m"
    and "\<forall>j<length ls. distance_to ob (ls ! i) \<le> distance_to ob (ls ! j)"
    and "\<forall>j<length ls. distance_to ob (ls ! j) = distance_to ob (ls ! i) \<longrightarrow> j \<le> i"
  shows "nearest_loop_r2 ls ob 0 m b = Some i"
proof -
  have "\<exists>l\<in>set ls. distance_to ob l \<le> m"
    using assms(1,2) nth_mem by blast
  from nearest_loop_r2_spec [OF this, of 0 b] obtain i' where
    "i' < length ls" "nearest_loop_r2 ls ob 0 m b = Some i'"
    "\<forall>j<length ls. distance_to ob (ls ! i') \<le> distance_to ob (ls ! j)"
    "\<forall>j<length ls. distance_to ob (ls ! j) = distance_to ob (ls ! i') \<longrightarrow> j \<le> i'"
    by auto
  with last_nearest_unique [OF assms(1) this(1) assms(3,4) this(3,4)] show ?thesis by simp
qed

lemma dataAssociation_r1_last_nearest:
  assumes "i < length ls"
    and "distance_to ob (ls ! i) \<le> DBL_MAX"
    and "distance_to ob (ls ! i) \<le> r"
    and "\<forall>j<length ls. distance_to ob (ls ! i) \<le> distance_to ob (ls ! j)"
    and "\<forall>j<length ls. distance_to ob (ls ! j) = distance_to ob (ls ! i) \<longrightarrow> j \<le> i"
  shows "dataAssociation_r1 r ls ob = i"
proof -
  have "distance_to ob (ls ! i) \<le> min r DBL_MAX"
    using assms(2,3) by simp
  from nearest_loop_r2_last_nearest [OF assms(1) this assms(4,5), of None]
  show ?thesis
    by (simp add: dataAssociation_r1_def dataAssociation_loop_r1_as_r2 [of None])
qed

lemma nearest_r2_one_observation:
  assumes "\<exists>l\<in>set landmarks. distance_to ob l \<le> DBL_MAX"
  shows "\<exists>i<length landmarks.
           nearest_r2 landmarks ob = Some i
         \<and> (\<forall>j<length landmarks.
               distance_to ob (landmarks ! i) \<le> distance_to ob (landmarks ! j))
         \<and> (\<forall>j<length landmarks.
               distance_to ob (landmarks ! j) = distance_to ob (landmarks ! i) \<longrightarrow> j \<le> i)
         \<and> (distance_to ob (landmarks ! i) \<le> sensor_range \<longrightarrow>
               dataAssociation_r1 sensor_range landmarks ob = i)"
proof -
  from nearest_loop_r2_spec [OF assms, of 0 None] obtain i where
    i: "i < length landmarks"
    and res: "nearest_r2 landmarks ob = Some i"
    and le: "distance_to ob (landmarks ! i) \<le> DBL_MAX"
    and least: "\<forall>j<length landmarks. distance_to ob (landmarks ! i) \<le> distance_to ob (landmarks ! j)"
    and last: "\<forall>j<length landmarks.
                 distance_to ob (landmarks ! j) = distance_to ob (landmarks ! i) \<longrightarrow> j \<le> i"
    by (auto simp: nearest_r2_def)
  have "dataAssociation_r1 sensor_range landmarks ob = i"
    if "distance_to ob (landmarks ! i) \<le> sensor_range"
    using dataAssociation_r1_last_nearest [OF i le that least last] .
  with i res least last show ?thesis
    by (intro exI [of _ i]) simp
qed

lemma dataAssociation_r2_nth:
  assumes "\<forall>ob\<in>set obs. \<exists>i<length ls. nearest_r2 ls ob = Some i"
  shows "\<exists>as. dataAssociation_r2 ls obs = Inr as \<and> length as = length obs
           \<and> (\<forall>k<length obs. \<forall>i. nearest_r2 ls (obs ! k) = Some i \<longrightarrow>
                 as ! k = \<lparr>o_id = id_i (ls ! i), o_x = x_f (ls ! i), o_y = y_f (ls ! i)\<rparr>)"
  using assms
proof (induction obs)
  case Nil
  then show ?case by simp
next
  case (Cons ob obs)
  from Cons.prems obtain i where i: "i < length ls" and res: "nearest_r2 ls ob = Some i"
    by auto
  from Cons.prems have "\<forall>ob\<in>set obs. \<exists>i<length ls. nearest_r2 ls ob = Some i" by simp
  from Cons.IH [OF this] obtain as where
    as: "dataAssociation_r2 ls obs = Inr as" "length as = length obs"
    "\<forall>k<length obs. \<forall>i. nearest_r2 ls (obs ! k) = Some i \<longrightarrow>
        as ! k = \<lparr>o_id = id_i (ls ! i), o_x = x_f (ls ! i), o_y = y_f (ls ! i)\<rparr>"
    by blast
  let ?a = "\<lparr>o_id = id_i (ls ! i), o_x = x_f (ls ! i), o_y = y_f (ls ! i)\<rparr>"
  have "dataAssociation_r2 ls (ob # obs) = Inr (?a # as)"
    using i res as(1) by simp
  moreover have "length (?a # as) = length (ob # obs)" using as(2) by simp
  moreover have "\<forall>k<length (ob # obs). \<forall>i. nearest_r2 ls ((ob # obs) ! k) = Some i \<longrightarrow>
        (?a # as) ! k = \<lparr>o_id = id_i (ls ! i), o_x = x_f (ls ! i), o_y = y_f (ls ! i)\<rparr>"
    using res as(3) by (simp add: All_less_Suc2)
  ultimately show ?case by blast
qed

lemma tie_eval_second:
  "nearest_r2 tie_landmarks (obs_at 2 0) = Some 2"
  "distance_to (obs_at 2 0) (tie_landmarks ! 2) = 0"
  using DBL_MAX_large
  by (simp_all add: nearest_r2_def tie_landmarks_def obs_at_def landmark_at_def dist2d_same_y)

lemma tie_eval:
  "nearest_r2 tie_landmarks (obs_at 0 0) = Some 1"
  "dataAssociation_r1 50 tie_landmarks (obs_at 0 0) = 1"
  "distance_to (obs_at 0 0) (tie_landmarks ! 0) = 1"
  "distance_to (obs_at 0 0) (tie_landmarks ! 1) = 1"
  "distance_to (obs_at 0 0) (tie_landmarks ! 2) = 2"
  using DBL_MAX_large
  by (simp_all add: nearest_r2_def dataAssociation_r1_def tie_landmarks_def obs_at_def
        landmark_at_def dist2d_same_y)

text \<open>
  C3, as the claim states it, fails on ties: the loops test \<open>currentDistance \<le> minDistance\<close>,
  so a later landmark at the same distance replaces the earlier one. With landmarks at
  \<open>(1, 0)\<close>, \<open>(-1, 0)\<close> and \<open>(2, 0)\<close> and the observation at the origin, the first two
  are both at the minimal distance 1; both revisions return the second (index 1).
\<close>

theorem dataAssociation_tie_counterexample:
  "distance_to (obs_at 0 0) (tie_landmarks ! 0) = distance_to (obs_at 0 0) (tie_landmarks ! 1)
   \<and> distance_to (obs_at 0 0) (tie_landmarks ! 0) < distance_to (obs_at 0 0) (tie_landmarks ! 2)
   \<and> dataAssociation_r2 tie_landmarks [obs_at 0 0] = Inr [\<lparr>o_id = 2, o_x = - 1, o_y = 0\<rparr>]
   \<and> dataAssociation_r1 50 tie_landmarks (obs_at 0 0) = 1"
proof (intro conjI)
  show "dataAssociation_r2 tie_landmarks [obs_at 0 0] = Inr [\<lparr>o_id = 2, o_x = - 1, o_y = 0\<rparr>]"
    using tie_eval(1) by (simp add: tie_landmarks_def landmark_at_def)
  show "distance_to (obs_at 0 0) (tie_landmarks ! 0) = distance_to (obs_at 0 0) (tie_landmarks ! 1)"
    unfolding tie_eval by simp
  show "distance_to (obs_at 0 0) (tie_landmarks ! 0) < distance_to (obs_at 0 0) (tie_landmarks ! 2)"
    unfolding tie_eval by simp
  show "dataAssociation_r1 50 tie_landmarks (obs_at 0 0) = 1"
    by (rule tie_eval)
qed

text \<open>
  C3, amended. Whenever every observation has some candidate within \<open>DBL_MAX\<close> of it (in
  \<^verbatim>\<open>double\<close> arithmetic: at a finite distance), the association of revision 2 returns
  one landmark per observation, in the order of the observations; the landmark for an
  observation is a candidate at minimal distance from it, and among several candidates
  at exactly the minimal distance the one with the largest index. Revision 1 returns the
  same index for that observation, provided that this landmark is within the sensor
  range of the observation.
\<close>

theorem dataAssociation_last_nearest:
  assumes "\<forall>ob\<in>set observations. \<exists>l\<in>set landmarks. distance_to ob l \<le> DBL_MAX"
  shows "\<exists>associated.
           dataAssociation_r2 landmarks observations = Inr associated
         \<and> length associated = length observations
         \<and> (\<forall>k<length observations. \<exists>i<length landmarks.
               nearest_r2 landmarks (observations ! k) = Some i
             \<and> associated ! k = \<lparr>o_id = id_i (landmarks ! i), o_x = x_f (landmarks ! i),
                                  o_y = y_f (landmarks ! i)\<rparr>
             \<and> (\<forall>j<length landmarks.
                   distance_to (observations ! k) (landmarks ! i)
                     \<le> distance_to (observations ! k) (landmarks ! j))
             \<and> (\<forall>j<length landmarks.
                   distance_to (observations ! k) (landmarks ! j)
                     = distance_to (observations ! k) (landmarks ! i) \<longrightarrow> j \<le> i)
             \<and> (distance_to (observations ! k) (landmarks ! i) \<le> sensor_range \<longrightarrow>
                   dataAssociation_r1 sensor_range landmarks (observations ! k) = i))"
proof -
  have one: "\<exists>i<length landmarks.
           nearest_r2 landmarks ob = Some i
         \<and> (\<forall>j<length landmarks.
               distance_to ob (landmarks ! i) \<le> distance_to ob (landmarks ! j))
         \<and> (\<forall>j<length landmarks.
               distance_to ob (landmarks ! j) = distance_to ob (landmarks ! i) \<longrightarrow> j \<le> i)
         \<and> (distance_to ob (landmarks ! i) \<le> sensor_range \<longrightarrow>
               dataAssociation_r1 sensor_range landmarks ob = i)"
    if "ob \<in> set observations" for ob
    using assms that by (intro nearest_r2_one_observation) blast
  then have "\<forall>ob\<in>set observations. \<exists>i<length landmarks. nearest_r2 landmarks ob = Some i"
    by blast
  from dataAssociation_r2_nth [OF this] obtain associated where
    run: "dataAssociation_r2 landmarks observations = Inr associated"
    and len: "length associated = length observations"
    and nth: "\<And>k i. k < length observations \<Longrightarrow> nearest_r2 landmarks (observations ! k) = Some i
                \<Longrightarrow> associated ! k = \<lparr>o_id = id_i (landmarks ! i), o_x = x_f (landmarks ! i),
                                        o_y = y_f (landmarks ! i)\<rparr>"
    by blast
  have "\<exists>i<length landmarks.
               nearest_r2 landmarks (observations ! k) = Some i
             \<and> associated ! k = \<lparr>o_id = id_i (landmarks ! i), o_x = x_f (landmarks ! i),
                                  o_y = y_f (landmarks ! i)\<rparr>
             \<and> (\<forall>j<length landmarks.
                   distance_to (observations ! k) (landmarks ! i)
                     \<le> distance_to (observations ! k) (landmarks ! j))
             \<and> (\<forall>j<length landmarks.
                   distance_to (observations ! k) (landmarks ! j)
                     = distance_to (observations ! k) (landmarks ! i) \<longrightarrow> j \<le> i)
             \<and> (distance_to (observations ! k) (landmarks ! i) \<le> sensor_range \<longrightarrow>
                   dataAssociation_r1 sensor_range landmarks (observations ! k) = i)"
    if k: "k < length observations" for k
  proof -
    from k have "observations ! k \<in> set observations" by simp
    from one [OF this] obtain i where i: "i < length landmarks"
      "nearest_r2 landmarks (observations ! k) = Some i"
      "\<forall>j<length landmarks.
         distance_to (observations ! k) (landmarks ! i) \<le> distance_to (observations ! k) (landmarks ! j)"
      "\<forall>j<length landmarks.
         distance_to (observations ! k) (landmarks ! j) = distance_to (observations ! k) (landmarks ! i)
         \<longrightarrow> j \<le> i"
      "distance_to (observations ! k) (landmarks ! i) \<le> sensor_range \<longrightarrow>
         dataAssociation_r1 sensor_range landmarks (observations ! k) = i"
      by blast
    with nth [OF k i(2)] show ?thesis by blast
  qed
  with run len show ?thesis by blast
qed

theorem dataAssociation_last_nearest_witness:
  "(\<exists>l\<in>set tie_landmarks. distance_to (obs_at 0 0) l \<le> DBL_MAX)
   \<and> (\<exists>l\<in>set tie_landmarks. distance_to (obs_at 2 0) l \<le> DBL_MAX)
   \<and> dataAssociation_r2 tie_landmarks [obs_at 0 0, obs_at 2 0]
       = Inr [\<lparr>o_id = 2, o_x = - 1, o_y = 0\<rparr>, \<lparr>o_id = 3, o_x = 2, o_y = 0\<rparr>]
   \<and> dataAssociation_r1 50 tie_landmarks (obs_at 0 0) = 1
   \<and> dataAssociation_r1 50 tie_landmarks (obs_at 2 0) = 2"
proof -
  have h0: "\<exists>l\<in>set tie_landmarks. distance_to (obs_at 0 0) l \<le> DBL_MAX"
    and h1: "\<exists>l\<in>set tie_landmarks. distance_to (obs_at 2 0) l \<le> DBL_MAX"
    using DBL_MAX_large
    by (simp_all add: tie_landmarks_def obs_at_def landmark_at_def dist2d_same_y)
  then have "\<forall>ob\<in>set [obs_at 0 0, obs_at 2 0]. \<exists>l\<in>set tie_landmarks. distance_to ob l \<le> DBL_MAX"
    by simp
  from dataAssociation_last_nearest [OF this, of 50] obtain associated where
    run: "dataAssociation_r2 tie_landmarks [obs_at 0 0, obs_at 2 0] = Inr associated"
    and len: "length associated = length [obs_at 0 0, obs_at 2 0]"
    and each: "\<And>k. k < length [obs_at 0 0, obs_at 2 0] \<Longrightarrow> \<exists>i<length tie_landmarks.
               nearest_r2 tie_landmarks ([obs_at 0 0, obs_at 2 0] ! k) = Some i
             \<and> associated ! k = \<lparr>o_id = id_i (tie_landmarks ! i), o_x = x_f (tie_landmarks ! i),
                                  o_y = y_f (tie_landmarks ! i)\<rparr>
             \<and> (distance_to ([obs_at 0 0, obs_at 2 0] ! k) (tie_landmarks ! i) \<le> 50 \<longrightarrow>
                   dataAssociation_r1 50 tie_landmarks ([obs_at 0 0, obs_at 2 0] ! k) = i)"
    by blast
  from each [of 0] obtain i where
    "nearest_r2 tie_landmarks (obs_at 0 0) = Some i"
    "associated ! 0 = \<lparr>o_id = id_i (tie_landmarks ! i), o_x = x_f (tie_landmarks ! i),
                        o_y = y_f (tie_landmarks ! i)\<rparr>"
    "distance_to (obs_at 0 0) (tie_landmarks ! i) \<le> 50 \<longrightarrow>
       dataAssociation_r1 50 tie_landmarks (obs_at 0 0) = i"
    by auto
  with tie_eval(1,4) have a0: "associated ! 0 = \<lparr>o_id = 2, o_x = - 1, o_y = 0\<rparr>"
    and r0: "dataAssociation_r1 50 tie_landmarks (obs_at 0 0) = 1"
    by (simp_all add: tie_landmarks_def landmark_at_def)
  from each [of 1] obtain i where
    "nearest_r2 tie_landmarks (obs_at 2 0) = Some i"
    "associated ! 1 = \<lparr>o_id = id_i (tie_landmarks ! i), o_x = x_f (tie_landmarks ! i),
                        o_y = y_f (tie_landmarks ! i)\<rparr>"
    "distance_to (obs_at 2 0) (tie_landmarks ! i) \<le> 50 \<longrightarrow>
       dataAssociation_r1 50 tie_landmarks (obs_at 2 0) = i"
    by auto
  with tie_eval_second have a1: "associated ! 1 = \<lparr>o_id = 3, o_x = 2, o_y = 0\<rparr>"
    and r1: "dataAssociation_r1 50 tie_landmarks (obs_at 2 0) = 2"
    by (simp_all add: tie_landmarks_def landmark_at_def)
  have "associated = [\<lparr>o_id = 2, o_x = - 1, o_y = 0\<rparr>, \<lparr>o_id = 3, o_x = 2, o_y = 0\<rparr>]"
    using len a0 a1 by (intro nth_equalityI) (auto simp: less_Suc_eq numeral_2_eq_2)
  with run h0 h1 r0 r1 show ?thesis by blast
qed

lemma dataAssociation_loop_r1_distances:
  "map (distance_to ob) ls = map (distance_to ob') ls' \<Longrightarrow>
   dataAssociation_loop_r1 r ls ob k m b = dataAssociation_loop_r1 r ls' ob' k m b"
  using nearest_loop_r2_distances [of ob ls ob' ls' k "min r m" None]
  by (simp add: dataAssociation_loop_r1_as_r2 [of None])

lemma dataAssociation_r1_in_range:
  assumes "dataAssociation_r1 r ls ob = i" and "0 < i"
  shows "i < length ls \<and> distance_to ob (ls ! i) \<le> r"
proof (cases "\<exists>l\<in>set ls. distance_to ob l \<le> min r DBL_MAX")
  case True
  from nearest_loop_r2_spec [OF this, of 0 None] obtain i' where
    "i' < length ls" "nearest_loop_r2 ls ob 0 (min r DBL_MAX) None = Some i'"
    "distance_to ob (ls ! i') \<le> min r DBL_MAX"
    by auto
  with assms(1) show ?thesis
    by (simp add: dataAssociation_r1_def dataAssociation_loop_r1_as_r2 [of None])
next
  case False
  then have "\<forall>l\<in>set ls. min r DBL_MAX < distance_to ob l" by auto
  from nearest_loop_r2_skip [OF this, of 0 None] assms show ?thesis
    by (simp add: dataAssociation_r1_def dataAssociation_loop_r1_as_r2 [of None])
qed

lemma dataAssociation_r1_none_in_range:
  assumes "\<forall>l\<in>set ls. r < distance_to ob l"
  shows "dataAssociation_r1 r ls ob = 0"
proof -
  from assms have "\<forall>l\<in>set ls. min r DBL_MAX < distance_to ob l" by auto
  from nearest_loop_r2_skip [OF this, of 0 None] show ?thesis
    by (simp add: dataAssociation_r1_def dataAssociation_loop_r1_as_r2 [of None])
qed

lemma updateWeight_r2_in_range_only:
  "updateWeight_r2 r sl obs lms p =
   updateWeight_r2 r sl obs (filter (\<lambda>l. dist2d (p_x p) (p_y p) (x_f l) (y_f l) \<le> r) lms) p"
  by (simp add: updateWeight_r2_def Let_def)

lemma origin_only_eval:
  "updateWeight_r2 1 (1, 1) [obs_at 2 0] [landmark_at 1 0 0] (particle_at 0 0 0 1)
     = Inr (particle_at 0 0 0 (exp (- 2) / (2 * pi)))"
  "filter (\<lambda>l. dist2d (p_x (particle_at 0 0 0 1)) (p_y (particle_at 0 0 0 1)) (x_f l) (y_f l) \<le> 1)
     origin_and_two = [landmark_at 1 0 0]"
  using DBL_MAX_large
  by (simp_all add: updateWeight_r2_def convertVehicleToMapCoords_r2_def nearest_r2_def dist2d_same_y
        multi_gaussian_def Let_def obs_at_def landmark_at_def particle_at_def origin_and_two_def)

lemma origin_alone_filter:
  "filter (\<lambda>l. dist2d (p_x (particle_at 0 0 0 1)) (p_y (particle_at 0 0 0 1)) (x_f l) (y_f l) \<le> 1)
     [landmark_at 1 0 0] = [landmark_at 1 0 0]"
  by (simp add: dist2d_same_y landmark_at_def particle_at_def)

text \<open>
  C6, as the claim states it, fails in revision 1: its association routine takes the
  sensor range and tests every landmark against it. With landmarks at \<open>(5, 0)\<close> and
  \<open>(1, 0)\<close> and the observation at the origin, the range 50 gives the nearer landmark
  (index 1) and the range \<open>1 / 2\<close> gives index 0.
\<close>

theorem dataAssociation_r1_range_counterexample:
  "dataAssociation_r1 50 far_near_landmarks (obs_at 0 0) = 1
   \<and> dataAssociation_r1 (1 / 2) far_near_landmarks (obs_at 0 0) = 0"
  using DBL_MAX_large
  by (simp add: dataAssociation_r1_def far_near_landmarks_def obs_at_def landmark_at_def
        dist2d_same_y)

text \<open>
  C6, amended. In revision 2 the index found by the association depends only on the
  list of distances between the candidates and the observation; the routine has no
  sensor range. In revision 1 the index depends on those distances and on the sensor
  range: a returned index other than 0 is a landmark within the sensor range of the
  observation, and the result is 0 when no landmark is within range. In revision 2 the
  range test is made by the caller: the weight update of a particle gives the result
  it gives on the landmarks within the sensor range of that particle alone, so two maps
  with the same landmarks in range give the same result.
\<close>

theorem association_range_filtering:
  "(map (distance_to ob) ls = map (distance_to ob') ls' \<longrightarrow>
      nearest_r2 ls ob = nearest_r2 ls' ob')
   \<and> (map (distance_to ob) ls = map (distance_to ob') ls' \<longrightarrow>
      dataAssociation_r1 sensor_range ls ob = dataAssociation_r1 sensor_range ls' ob')
   \<and> (0 < dataAssociation_r1 sensor_range ls ob \<longrightarrow>
        dataAssociation_r1 sensor_range ls ob < length ls
      \<and> distance_to ob (ls ! dataAssociation_r1 sensor_range ls ob) \<le> sensor_range)
   \<and> ((\<forall>l\<in>set ls. sensor_range < distance_to ob l) \<longrightarrow>
        dataAssociation_r1 sensor_range ls ob = 0)
   \<and> updateWeight_r2 sensor_range std_landmark obs ls p =
       updateWeight_r2 sensor_range std_landmark obs
         (filter (\<lambda>l. dist2d (p_x p) (p_y p) (x_f l) (y_f l) \<le> sensor_range) ls) p
   \<and> (filter (\<lambda>l. dist2d (p_x p) (p_y p) (x_f l) (y_f l) \<le> sensor_range) ls
        = filter (\<lambda>l. dist2d (p_x p) (p_y p) (x_f l) (y_f l) \<le> sensor_range) ls' \<longrightarrow>
      updateWeight_r2 sensor_range std_landmark obs ls p
        = updateWeight_r2 sensor_range std_landmark obs ls' p)"
proof -
  have caller: "updateWeight_r2 sensor_range std_landmark obs ls p
        = updateWeight_r2 sensor_range std_landmark obs ls' p"
    if "filter (\<lambda>l. dist2d (p_x p) (p_y p) (x_f l) (y_f l) \<le> sensor_range) ls
        = filter (\<lambda>l. dist2d (p_x p) (p_y p) (x_f l) (y_f l) \<le> sensor_range) ls'"
    using that updateWeight_r2_in_range_only [of sensor_range std_landmark obs ls p]
      updateWeight_r2_in_range_only [of sensor_range std_landmark obs ls' p]
    by simp
  show ?thesis
    using nearest_loop_r2_distances [of ob ls ob' ls' 0 DBL_MAX None]
      dataAssociation_loop_r1_distances [of ob ls ob' ls' sensor_range 0 DBL_MAX 0]
      dataAssociation_r1_in_range [of sensor_range ls ob]
      dataAssociation_r1_none_in_range [of ls sensor_range ob]
      updateWeight_r2_in_range_only [of sensor_range std_landmark obs ls p]
      caller
    by (simp add: nearest_r2_def dataAssociation_r1_def)
qed

theorem association_range_filtering_witness:
  "map (distance_to (obs_at 0 0)) far_near_landmarks
     = map (distance_to (obs_at 1 0)) [landmark_at 7 6 0, landmark_at 8 2 0]
   \<and> nearest_r2 far_near_landmarks (obs_at 0 0)
     = nearest_r2 [landmark_at 7 6 0, landmark_at 8 2 0] (obs_at 1 0)
   \<and> dataAssociation_r1 50 far_near_landmarks (obs_at 0 0)
     = dataAssociation_r1 50 [landmark_at 7 6 0, landmark_at 8 2 0] (obs_at 1 0)
   \<and> 0 < dataAssociation_r1 50 far_near_landmarks (obs_at 0 0)
   \<and> distance_to (obs_at 0 0)
        (far_near_landmarks ! dataAssociation_r1 50 far_near_landmarks (obs_at 0 0)) \<le> 50
   \<and> 1 / 2 < distance_to (obs_at 0 0) (far_near_landmarks ! 0)
   \<and> 1 / 2 < distance_to (obs_at 0 0) (far_near_landmarks ! 1)
   \<and> length far_near_landmarks = 2
   \<and> dataAssociation_r1 (1 / 2) far_near_landmarks (obs_at 0 0) = 0
   \<and> filter (\<lambda>l. dist2d (p_x (particle_at 0 0 0 1)) (p_y (particle_at 0 0 0 1)) (x_f l) (y_f l) \<le> 1)
        origin_and_two
      = filter (\<lambda>l. dist2d (p_x (particle_at 0 0 0 1)) (p_y (particle_at 0 0 0 1)) (x_f l) (y_f l) \<le> 1)
        [landmark_at 1 0 0]
   \<and> updateWeight_r2 1 (1, 1) [obs_at 2 0] origin_and_two (particle_at 0 0 0 1)
      = updateWeight_r2 1 (1, 1) [obs_at 2 0] [landmark_at 1 0 0] (particle_at 0 0 0 1)
   \<and> updateWeight_r2 1 (1, 1) [obs_at 2 0] origin_and_two (particle_at 0 0 0 1)
      = Inr (particle_at 0 0 0 (exp (- 2) / (2 * pi)))"
proof -
  have same: "map (distance_to (obs_at 0 0)) far_near_landmarks
     = map (distance_to (obs_at 1 0)) [landmark_at 7 6 0, landmark_at 8 2 0]"
    by (simp add: far_near_landmarks_def obs_at_def landmark_at_def dist2d_same_y)
  have pos: "0 < dataAssociation_r1 50 far_near_landmarks (obs_at 0 0)"
    using DBL_MAX_large
    by (simp add: dataAssociation_r1_def far_near_landmarks_def obs_at_def landmark_at_def
          dist2d_same_y)
  have far: "\<forall>l\<in>set far_near_landmarks. 1 / 2 < distance_to (obs_at 0 0) l"
    by (simp add: far_near_landmarks_def obs_at_def landmark_at_def dist2d_same_y)
  note at_50 = association_range_filtering [of "obs_at 0 0" far_near_landmarks "obs_at 1 0"
        "[landmark_at 7 6 0, landmark_at 8 2 0]" 50]
  note at_half = association_range_filtering [of "obs_at 0 0" far_near_landmarks "obs_at 1 0"
        "[landmark_at 7 6 0, landmark_at 8 2 0]" "1 / 2"]
  note at_caller = association_range_filtering [of "obs_at 2 0" origin_and_two "obs_at 2 0"
        "[landmark_at 1 0 0]" 1 "(1, 1)" "[obs_at 2 0]" "particle_at 0 0 0 1"]
  from at_50 same have c1: "nearest_r2 far_near_landmarks (obs_at 0 0)
     = nearest_r2 [landmark_at 7 6 0, landmark_at 8 2 0] (obs_at 1 0)"
    by blast
  from at_50 same have c2: "dataAssociation_r1 50 far_near_landmarks (obs_at 0 0)
     = dataAssociation_r1 50 [landmark_at 7 6 0, landmark_at 8 2 0] (obs_at 1 0)"
    by blast
  from at_50 pos have c3: "distance_to (obs_at 0 0)
        (far_near_landmarks ! dataAssociation_r1 50 far_near_landmarks (obs_at 0 0)) \<le> 50"
    by blast
  from at_half far have c4: "dataAssociation_r1 (1 / 2) far_near_landmarks (obs_at 0 0) = 0"
    by blast
  have each: "1 / 2 < distance_to (obs_at 0 0) (far_near_landmarks ! 0)"
    "1 / 2 < distance_to (obs_at 0 0) (far_near_landmarks ! 1)"
    "length far_near_landmarks = 2"
    by (simp_all add: far_near_landmarks_def obs_at_def landmark_at_def dist2d_same_y)
  have seen: "filter (\<lambda>l. dist2d (p_x (particle_at 0 0 0 1)) (p_y (particle_at 0 0 0 1)) (x_f l) (y_f l) \<le> 1)
        origin_and_two
      = filter (\<lambda>l. dist2d (p_x (particle_at 0 0 0 1)) (p_y (particle_at 0 0 0 1)) (x_f l) (y_f l) \<le> 1)
        [landmark_at 1 0 0]"
    unfolding origin_only_eval(2) origin_alone_filter ..
  from at_caller seen have c5: "updateWeight_r2 1 (1, 1) [obs_at 2 0] origin_and_two (particle_at 0 0 0 1)
      = updateWeight_r2 1 (1, 1) [obs_at 2 0] [landmark_at 1 0 0] (particle_at 0 0 0 1)"
    by blast
  then have c6: "updateWeight_r2 1 (1, 1) [obs_at 2 0] origin_and_two (particle_at 0 0 0 1)
      = Inr (particle_at 0 0 0 (exp (- 2) / (2 * pi)))"
    by (simp only: origin_only_eval(1))
  from same pos each c1 c2 c3 c4 seen c5 c6 show ?thesis
    by blast
qed

section \<open>Properties of the weight update\<close>

lemma step_r1:
  "updateWeights_r1 50 (1, 1) [obs_at 1 0] [landmark_at 1 1 0] [particle_at 0 0 0 w]
     = Inr [particle_at 0 0 0 (w / (2 * pi))]"
  by (simp add: convertVehicleToMapCoords_r1_def dataAssociation_r1_def dist2d_def DBL_MAX_def
        multi_gaussian_def Let_def obs_at_def landmark_at_def particle_at_def)

lemma updateWeight_r2_overwrites:
  "updateWeight_r2 r sl obs lms (p\<lparr>p_weight := w\<rparr>) = updateWeight_r2 r sl obs lms p"
  by (simp add: updateWeight_r2_def convertVehicleToMapCoords_r2_def Let_def split: sum.splits)

lemma updateWeights_r2_empty:
  "updateWeights_r2 r sl [] lms ps = Inr (map (\<lambda>p. p\<lparr>p_weight := 1\<rparr>) ps)"
  by (induction ps) (simp_all add: updateWeight_r2_def)

text \<open>
  C2. The claim says that the weight after \<open>updateWeights\<close> does not depend on the weight
  before. In revision 1 it does: a particle fresh from \<open>init\<close> (weight 1) receives the
  density \<open>1 / (2 * pi)\<close>, and the same call on the particle that already carries
  \<open>1 / (2 * pi)\<close> leaves it with the square of that value. Revision 2 ignores the
  weight before (lemma \<open>updateWeight_r2_overwrites\<close>).
\<close>

theorem updateWeights_r1_accumulates:
  "updateWeights_r1 50 (1, 1) [obs_at 1 0] [landmark_at 1 1 0] [particle_at 0 0 0 1]
     = Inr [particle_at 0 0 0 (1 / (2 * pi))]
   \<and> updateWeights_r1 50 (1, 1) [obs_at 1 0] [landmark_at 1 1 0] [particle_at 0 0 0 (1 / (2 * pi))]
     = Inr [particle_at 0 0 0 (1 / (2 * pi) / (2 * pi))]
   \<and> 1 / (2 * pi) / (2 * pi) \<noteq> 1 / (2 * pi)"
proof (intro conjI)
  show "updateWeights_r1 50 (1, 1) [obs_at 1 0] [landmark_at 1 1 0] [particle_at 0 0 0 1]
     = Inr [particle_at 0 0 0 (1 / (2 * pi))]"
    by (rule step_r1)
  show "updateWeights_r1 50 (1, 1) [obs_at 1 0] [landmark_at 1 1 0] [particle_at 0 0 0 (1 / (2 * pi))]
     = Inr [particle_at 0 0 0 (1 / (2 * pi) / (2 * pi))]"
    by (rule step_r1)
  show "1 / (2 * pi) / (2 * pi) \<noteq> 1 / (2 * pi)"
    using pi_ge_two by simp
qed

text \<open>
  C7. The claim says that an empty observation list gives every particle the weight 1.
  In revision 1 the loop over the observations does not run and the weight stays what it
  was: a particle that carries \<open>1 / (2 * pi)\<close> from the update before keeps it.
  Revision 2 sets every weight to 1 (lemma \<open>updateWeights_r2_empty\<close>).
\<close>

theorem updateWeights_r1_empty_keeps_weight:
  "updateWeights_r1 50 (1, 1) [obs_at 1 0] [landmark_at 1 1 0] [particle_at 0 0 0 1]
     = Inr [particle_at 0 0 0 (1 / (2 * pi))]
   \<and> updateWeights_r1 50 (1, 1) [] [landmark_at 1 1 0] [particle_at 0 0 0 (1 / (2 * pi))]
     = Inr [particle_at 0 0 0 (1 / (2 * pi))]
   \<and> p_weight (particle_at 0 0 0 (1 / (2 * pi))) \<noteq> 1"
proof (intro conjI)
  show "updateWeights_r1 50 (1, 1) [obs_at 1 0] [landmark_at 1 1 0] [particle_at 0 0 0 1]
     = Inr [particle_at 0 0 0 (1 / (2 * pi))]"
    by (rule step_r1)
  show "updateWeights_r1 50 (1, 1) [] [landmark_at 1 1 0] [particle_at 0 0 0 (1 / (2 * pi))]
     = Inr [particle_at 0 0 0 (1 / (2 * pi))]"
    by simp
  show "p_weight (particle_at 0 0 0 (1 / (2 * pi))) \<noteq> 1"
    using pi_ge_two by (simp add: particle_at_def)
qed

section \<open>Comparison of the two revisions of the weight update\<close>

lemma nearest_loop_r2_split:
  assumes "\<forall>l\<in>set pre. distance_to ob x \<le> distance_to ob l"
    and "\<forall>l\<in>set suf. distance_to ob x < distance_to ob l"
    and "distance_to ob x \<le> m"
  shows "nearest_loop_r2 (pre @ x # suf) ob k m b = Some (k + length pre)"
  using assms
proof (induction pre arbitrary: k m b)
  case Nil
  then show ?case by (simp add: Let_def nearest_loop_r2_skip)
next
  case (Cons l pre)
  have pre: "\<forall>l\<in>set pre. distance_to ob x \<le> distance_to ob l"
    using Cons.prems(1) by simp
  show ?case
  proof (cases "distance_to ob l \<le> m")
    case True
    have "distance_to ob x \<le> distance_to ob l" using Cons.prems(1) by simp
    from Cons.IH [OF pre Cons.prems(2) this, of "Suc k" "Some k"] True show ?thesis
      by (simp add: Let_def)
  next
    case False
    from Cons.IH [OF pre Cons.prems(2,3), of "Suc k" b] False show ?thesis
      by (simp add: Let_def)
  qed
qed

lemma last_nearest_before:
  assumes "i < length ls"
    and "\<forall>j<length ls. distance_to ob (ls ! i) \<le> distance_to ob (ls ! j)"
  shows "\<forall>l\<in>set (take i ls). distance_to ob (ls ! i) \<le> distance_to ob l"
proof
  fix l assume "l \<in> set (take i ls)"
  then have "l \<in> set ls" by (rule in_set_takeD)
  then obtain j where "j < length ls" "ls ! j = l" by (auto simp: in_set_conv_nth)
  with assms(2) show "distance_to ob (ls ! i) \<le> distance_to ob l" by auto
qed

lemma last_nearest_after:
  assumes "i < length ls"
    and "\<forall>j<length ls. distance_to ob (ls ! i) \<le> distance_to ob (ls ! j)"
    and "\<forall>j<length ls. distance_to ob (ls ! j) = distance_to ob (ls ! i) \<longrightarrow> j \<le> i"
  shows "\<forall>l\<in>set (drop (Suc i) ls). distance_to ob (ls ! i) < distance_to ob l"
proof
  fix l assume "l \<in> set (drop (Suc i) ls)"
  then obtain t where t: "t < length ls - Suc i" and l: "drop (Suc i) ls ! t = l"
    by (auto simp: in_set_conv_nth)
  let ?j = "Suc i + t"
  from t have j: "?j < length ls" by simp
  then have lj: "ls ! ?j = l" using l by simp
  from assms(2) j have "distance_to ob (ls ! i) \<le> distance_to ob (ls ! ?j)" by blast
  moreover have "distance_to ob (ls ! ?j) \<noteq> distance_to ob (ls ! i)"
  proof
    assume "distance_to ob (ls ! ?j) = distance_to ob (ls ! i)"
    with assms(3) j have "?j \<le> i" by blast
    then show False by simp
  qed
  ultimately show "distance_to ob (ls ! i) < distance_to ob l"
    using lj by simp
qed

lemma nearest_r2_filter:
  assumes i: "i < length ls"
    and keep: "P (ls ! i)"
    and bound: "distance_to ob (ls ! i) \<le> DBL_MAX"
    and least: "\<forall>j<length ls. distance_to ob (ls ! i) \<le> distance_to ob (ls ! j)"
    and last: "\<forall>j<length ls. distance_to ob (ls ! j) = distance_to ob (ls ! i) \<longrightarrow> j \<le> i"
  shows "\<exists>i'<length (filter P ls). nearest_r2 (filter P ls) ob = Some i' \<and> filter P ls ! i' = ls ! i"
proof -
  let ?pre = "filter P (take i ls)" and ?suf = "filter P (drop (Suc i) ls)"
  have "ls = take i ls @ ls ! i # drop (Suc i) ls"
    using i by (rule id_take_nth_drop)
  then have "filter P ls = filter P (take i ls @ ls ! i # drop (Suc i) ls)" by simp
  then have split: "filter P ls = ?pre @ ls ! i # ?suf"
    using keep by simp
  have "\<forall>l\<in>set ?pre. distance_to ob (ls ! i) \<le> distance_to ob l"
    using last_nearest_before [OF i least] by simp
  moreover have "\<forall>l\<in>set ?suf. distance_to ob (ls ! i) < distance_to ob l"
    using last_nearest_after [OF i least last] by simp
  ultimately have "nearest_loop_r2 (?pre @ ls ! i # ?suf) ob 0 DBL_MAX None = Some (0 + length ?pre)"
    using bound by (rule nearest_loop_r2_split)
  then have "nearest_r2 (filter P ls) ob = Some (length ?pre)"
    by (simp add: nearest_r2_def split)
  moreover have "length ?pre < length (filter P ls)" by (simp add: split)
  moreover have "filter P ls ! length ?pre = ls ! i" by (simp add: split)
  ultimately show ?thesis by blast
qed

lemma convert_r1_eq_r2:
  "sin (p_theta p) = 0 \<Longrightarrow> convertVehicleToMapCoords_r1 ob p = convertVehicleToMapCoords_r2 ob p"
  by (simp add: convertVehicleToMapCoords_r1_def convertVehicleToMapCoords_r2_def Let_def)

lemma convert_weight [simp]:
  "convertVehicleToMapCoords_r1 ob (p\<lparr>p_weight := w\<rparr>) = convertVehicleToMapCoords_r1 ob p"
  "convertVehicleToMapCoords_r2 ob (p\<lparr>p_weight := w\<rparr>) = convertVehicleToMapCoords_r2 ob p"
  by (simp_all add: convertVehicleToMapCoords_r1_def convertVehicleToMapCoords_r2_def Let_def)


lemma nearest_within_selected:
  assumes "nearest_within r lms p c"
  obtains i i' where "i < length lms"
    and "nearest_r2 lms c = Some i"
    and "dataAssociation_r1 r lms c = i"
    and "i' < length (filter (\<lambda>l. dist2d (p_x p) (p_y p) (x_f l) (y_f l) \<le> r) lms)"
    and "nearest_r2 (filter (\<lambda>l. dist2d (p_x p) (p_y p) (x_f l) (y_f l) \<le> r) lms) c = Some i'"
    and "filter (\<lambda>l. dist2d (p_x p) (p_y p) (x_f l) (y_f l) \<le> r) lms ! i' = lms ! i"
proof -
  from assms obtain i where i: "i < length lms"
    and least: "\<forall>j<length lms. distance_to c (lms ! i) \<le> distance_to c (lms ! j)"
    and last: "\<forall>j<length lms. distance_to c (lms ! j) = distance_to c (lms ! i) \<longrightarrow> j \<le> i"
    and near: "distance_to c (lms ! i) \<le> r"
    and bound: "distance_to c (lms ! i) \<le> DBL_MAX"
    and seen: "dist2d (p_x p) (p_y p) (x_f (lms ! i)) (y_f (lms ! i)) \<le> r"
    unfolding nearest_within_def by blast
  have whole: "nearest_r2 lms c = Some i"
    unfolding nearest_r2_def by (rule nearest_loop_r2_last_nearest [OF i bound least last])
  have first: "dataAssociation_r1 r lms c = i"
    by (rule dataAssociation_r1_last_nearest [OF i bound near least last])
  from nearest_r2_filter [of i lms "\<lambda>l. dist2d (p_x p) (p_y p) (x_f l) (y_f l) \<le> r" c,
      OF i seen bound least last]
  obtain i' where "i' < length (filter (\<lambda>l. dist2d (p_x p) (p_y p) (x_f l) (y_f l) \<le> r) lms)"
    "nearest_r2 (filter (\<lambda>l. dist2d (p_x p) (p_y p) (x_f l) (y_f l) \<le> r) lms) c = Some i'"
    "filter (\<lambda>l. dist2d (p_x p) (p_y p) (x_f l) (y_f l) \<le> r) lms ! i' = lms ! i"
    by blast
  with i whole first show thesis by (rule that)
qed

lemma observations_loop_r1_value:
  assumes "sin (p_theta p) = 0"
    and "\<forall>ob\<in>set obs. nearest_within r lms p (convertVehicleToMapCoords_r2 ob p)"
  shows "observations_loop_r1 r sl obs lms (p\<lparr>p_weight := w\<rparr>) =
           Inr (p\<lparr>p_weight := w * prod_list
                  (map (\<lambda>ob. nearest_density lms sl (convertVehicleToMapCoords_r2 ob p)) obs)\<rparr>)"
  using assms(2)
proof (induction obs arbitrary: w)
  case Nil
  then show ?case by simp
next
  case (Cons ob obs)
  let ?c = "convertVehicleToMapCoords_r2 ob p"
  from Cons.prems have "nearest_within r lms p ?c" by simp
  then obtain i where i: "i < length lms" and whole: "nearest_r2 lms ?c = Some i"
    and first: "dataAssociation_r1 r lms ?c = i"
    by (rule nearest_within_selected)
  have conv: "convertVehicleToMapCoords_r1 ob p = ?c"
    using assms(1) by (rule convert_r1_eq_r2)
  have dens: "nearest_density lms sl ?c =
      multi_gaussian sl (x_f (lms ! i) - o_x ?c) (y_f (lms ! i) - o_y ?c)"
    by (simp add: nearest_density_def whole)
  from Cons.prems have rest: "\<forall>ob\<in>set obs. nearest_within r lms p (convertVehicleToMapCoords_r2 ob p)"
    by simp
  have "observations_loop_r1 r sl (ob # obs) lms (p\<lparr>p_weight := w\<rparr>) =
        observations_loop_r1 r sl obs lms (p\<lparr>p_weight := w * nearest_density lms sl ?c\<rparr>)"
    using i by (simp add: Let_def conv first dens)
  also have "\<dots> = Inr (p\<lparr>p_weight := w * nearest_density lms sl ?c * prod_list
                  (map (\<lambda>ob. nearest_density lms sl (convertVehicleToMapCoords_r2 ob p)) obs)\<rparr>)"
    by (rule Cons.IH [OF rest])
  finally show ?case by (simp add: mult.assoc)
qed

lemma dataAssociation_r2_value:
  assumes "\<forall>c\<in>set cs. nearest_within r lms p c"
  shows "\<exists>as. dataAssociation_r2
                 (filter (\<lambda>l. dist2d (p_x p) (p_y p) (x_f l) (y_f l) \<le> r) lms) cs = Inr as
             \<and> (\<forall>acc. weight_loop_r2 sl as cs acc
                        = acc * prod_list (map (nearest_density lms sl) cs))"
  using assms
proof (induction cs)
  case Nil
  then show ?case by simp
next
  case (Cons c cs)
  let ?cands = "filter (\<lambda>l. dist2d (p_x p) (p_y p) (x_f l) (y_f l) \<le> r) lms"
  from Cons.prems have "nearest_within r lms p c" by simp
  then obtain i i' where whole: "nearest_r2 lms c = Some i"
    and i': "i' < length ?cands"
    and part: "nearest_r2 ?cands c = Some i'"
    and same: "?cands ! i' = lms ! i"
    by (rule nearest_within_selected)
  from Cons.prems have "\<forall>c\<in>set cs. nearest_within r lms p c" by simp
  from Cons.IH [OF this] obtain as where
    as: "dataAssociation_r2 ?cands cs = Inr as"
    and prod: "\<And>acc. weight_loop_r2 sl as cs acc = acc * prod_list (map (nearest_density lms sl) cs)"
    by blast
  let ?a = "\<lparr>o_id = id_i (lms ! i), o_x = x_f (lms ! i), o_y = y_f (lms ! i)\<rparr>"
  have "dataAssociation_r2 ?cands (c # cs) = Inr (?a # as)"
    using i' by (simp add: part same as)
  moreover have "weight_loop_r2 sl (?a # as) (c # cs) acc
      = acc * prod_list (map (nearest_density lms sl) (c # cs))" for acc
    by (simp add: prod nearest_density_def whole mult.assoc)
  ultimately show ?case by blast
qed

lemma updateWeight_r2_value:
  assumes "\<forall>ob\<in>set obs. nearest_within r lms p (convertVehicleToMapCoords_r2 ob p)"
  shows "updateWeight_r2 r sl obs lms p =
           Inr (p\<lparr>p_weight := prod_list
                  (map (\<lambda>ob. nearest_density lms sl (convertVehicleToMapCoords_r2 ob p)) obs)\<rparr>)"
proof -
  let ?cs = "map (\<lambda>ob. convertVehicleToMapCoords_r2 ob p) obs"
  from assms have "\<forall>c\<in>set ?cs. nearest_within r lms p c" by simp
  from dataAssociation_r2_value [OF this, of sl] obtain as where
    "dataAssociation_r2 (filter (\<lambda>l. dist2d (p_x p) (p_y p) (x_f l) (y_f l) \<le> r) lms) ?cs = Inr as"
    "weight_loop_r2 sl as ?cs 1 = 1 * prod_list (map (nearest_density lms sl) ?cs)"
    by blast
  then show ?thesis
    by (simp add: updateWeight_r2_def Let_def comp_def)
qed

text \<open>
  C4, as the claim states it, fails even where the prior weights are 1 and the heading
  is 0: revision 1 tests the landmarks against the sensor range around the observation,
  revision 2 around the particle. With landmarks at \<open>(0, 0)\<close> and \<open>(2, 0)\<close>, a particle at
  the origin, an observation that maps to \<open>(2, 0)\<close> and a sensor range of 1, revision 1
  matches the landmark at \<open>(2, 0)\<close> and revision 2 the landmark at the origin.
\<close>

theorem updateWeights_revisions_counterexample:
  "updateWeights_r1 1 (1, 1) [obs_at 2 0] origin_and_two [particle_at 0 0 0 1]
     = Inr [particle_at 0 0 0 (1 / (2 * pi))]
   \<and> updateWeights_r2 1 (1, 1) [obs_at 2 0] origin_and_two [particle_at 0 0 0 1]
     = Inr [particle_at 0 0 0 (exp (- 2) / (2 * pi))]
   \<and> 1 / (2 * pi) \<noteq> exp (- 2) / (2 * pi)"
proof (intro conjI)
  show "updateWeights_r1 1 (1, 1) [obs_at 2 0] origin_and_two [particle_at 0 0 0 1]
     = Inr [particle_at 0 0 0 (1 / (2 * pi))]"
    using DBL_MAX_large
    by (simp add: convertVehicleToMapCoords_r1_def dataAssociation_r1_def dist2d_same_y
          multi_gaussian_def Let_def obs_at_def landmark_at_def particle_at_def origin_and_two_def)
  show "updateWeights_r2 1 (1, 1) [obs_at 2 0] origin_and_two [particle_at 0 0 0 1]
     = Inr [particle_at 0 0 0 (exp (- 2) / (2 * pi))]"
    using DBL_MAX_large
    by (simp add: updateWeight_r2_def convertVehicleToMapCoords_r2_def nearest_r2_def dist2d_same_y
          multi_gaussian_def Let_def obs_at_def landmark_at_def particle_at_def origin_and_two_def)
  have "exp (- 2) \<noteq> (1::real)" by simp
  then show "1 / (2 * pi) \<noteq> exp (- 2) / (2 * pi)" by simp
qed

text \<open>
  C4, amended. For particles whose prior weight is 1 and whose heading has
  \<open>sin theta = 0\<close>, the two revisions of \<open>updateWeights\<close> return the same particles
  with the same weights, provided that for every particle and observation the landmark
  of the map nearest to the transformed observation (the last one on ties) is at finite
  distance and within the sensor range both of the observation and of the particle.
\<close>

theorem updateWeights_revisions_agree:
  assumes "\<forall>p\<in>set ps. p_weight p = 1 \<and> sin (p_theta p) = 0"
    and "\<forall>p\<in>set ps. \<forall>ob\<in>set obs.
           nearest_within sensor_range lms p (convertVehicleToMapCoords_r2 ob p)"
  shows "\<exists>ps'. updateWeights_r1 sensor_range std_landmark obs lms ps = Inr ps'
             \<and> updateWeights_r2 sensor_range std_landmark obs lms ps = Inr ps'"
  using assms
proof (induction ps)
  case Nil
  then show ?case by simp
next
  case (Cons p ps)
  let ?w = "prod_list (map (\<lambda>ob. nearest_density lms std_landmark
                                   (convertVehicleToMapCoords_r2 ob p)) obs)"
  from Cons.prems have one: "p_weight p = 1" and flat: "sin (p_theta p) = 0"
    and near: "\<forall>ob\<in>set obs. nearest_within sensor_range lms p (convertVehicleToMapCoords_r2 ob p)"
    by simp_all
  have "observations_loop_r1 sensor_range std_landmark obs lms (p\<lparr>p_weight := 1\<rparr>)
          = Inr (p\<lparr>p_weight := 1 * ?w\<rparr>)"
    by (rule observations_loop_r1_value [OF flat near])
  moreover have "p\<lparr>p_weight := 1\<rparr> = p" using one by simp
  ultimately have first: "observations_loop_r1 sensor_range std_landmark obs lms p
          = Inr (p\<lparr>p_weight := ?w\<rparr>)"
    by simp
  have second: "updateWeight_r2 sensor_range std_landmark obs lms p = Inr (p\<lparr>p_weight := ?w\<rparr>)"
    by (rule updateWeight_r2_value [OF near])
  from Cons.prems have "\<forall>p\<in>set ps. p_weight p = 1 \<and> sin (p_theta p) = 0"
    "\<forall>p\<in>set ps. \<forall>ob\<in>set obs.
           nearest_within sensor_range lms p (convertVehicleToMapCoords_r2 ob p)"
    by simp_all
  from Cons.IH [OF this] obtain ps' where
    "updateWeights_r1 sensor_range std_landmark obs lms ps = Inr ps'"
    "updateWeights_r2 sensor_range std_landmark obs lms ps = Inr ps'"
    by blast
  with first second show ?case by simp
qed


theorem updateWeights_revisions_agree_witness:
  "p_weight (particle_at 0 0 0 1) = 1
   \<and> sin (p_theta (particle_at 0 0 0 1)) = 0
   \<and> nearest_within 50 origin_and_two (particle_at 0 0 0 1)
        (convertVehicleToMapCoords_r2 (obs_at 2 0) (particle_at 0 0 0 1))
   \<and> updateWeights_r1 50 (1, 1) [obs_at 2 0] origin_and_two [particle_at 0 0 0 1]
        = Inr [particle_at 0 0 0 (1 / (2 * pi))]
   \<and> updateWeights_r2 50 (1, 1) [obs_at 2 0] origin_and_two [particle_at 0 0 0 1]
        = Inr [particle_at 0 0 0 (1 / (2 * pi))]"
proof -
  have flat: "p_weight (particle_at 0 0 0 1) = 1" "sin (p_theta (particle_at 0 0 0 1)) = 0"
    by (simp_all add: particle_at_def)
  have near: "nearest_within 50 origin_and_two (particle_at 0 0 0 1)
        (convertVehicleToMapCoords_r2 (obs_at 2 0) (particle_at 0 0 0 1))"
    unfolding nearest_within_def
    using DBL_MAX_large
    by (intro exI [of _ 1])
       (simp add: convertVehicleToMapCoords_r2_def dist2d_same_y obs_at_def landmark_at_def
          particle_at_def origin_and_two_def All_less_Suc2)
  have first: "updateWeights_r1 50 (1, 1) [obs_at 2 0] origin_and_two [particle_at 0 0 0 1]
        = Inr [particle_at 0 0 0 (1 / (2 * pi))]"
    using DBL_MAX_large
    by (simp add: convertVehicleToMapCoords_r1_def dataAssociation_r1_def dist2d_same_y
          multi_gaussian_def Let_def obs_at_def landmark_at_def particle_at_def origin_and_two_def)
  have "\<exists>ps'. updateWeights_r1 50 (1, 1) [obs_at 2 0] origin_and_two [particle_at 0 0 0 1] = Inr ps'
             \<and> updateWeights_r2 50 (1, 1) [obs_at 2 0] origin_and_two [particle_at 0 0 0 1] = Inr ps'"
    by (rule updateWeights_revisions_agree) (simp_all add: flat near)
  with first have "updateWeights_r2 50 (1, 1) [obs_at 2 0] origin_and_two [particle_at 0 0 0 1]
        = Inr [particle_at 0 0 0 (1 / (2 * pi))]"
    by auto
  with flat near first show ?thesis by blast
qed

section \<open>The number of particles\<close>

lemma init_loop_length:
  "length (init_loop gauss x y theta std k n ps) = length ps + n"
  by (induction n arbitrary: k ps) (auto simp: Let_def split: prod.splits)

lemma observations_loop_r1_frame:
  "observations_loop_r1 r sl obs lms p = Inr p' \<Longrightarrow> p'\<lparr>p_weight := w\<rparr> = p\<lparr>p_weight := w\<rparr>"
  by (induction obs arbitrary: p) (fastforce simp: Let_def split: if_splits)+

lemma updateWeights_r1_length:
  "updateWeights_r1 r sl obs lms ps = Inr ps' \<Longrightarrow> length ps' = length ps"
  by (induction ps arbitrary: ps') (auto split: sum.splits)

lemma updateWeights_r2_length:
  "updateWeights_r2 r sl obs lms ps = Inr ps' \<Longrightarrow> length ps' = length ps"
  by (induction ps arbitrary: ps') (auto split: sum.splits)

lemma resample_loop_length:
  "resample_loop draw copy k n = Inr ps' \<Longrightarrow> length ps' = n"
  by (induction n arbitrary: k ps') (auto split: sum.splits if_splits)

lemma resample_loop_nth:
  "resample_loop draw copy k n = Inr ps' \<Longrightarrow> i < n \<Longrightarrow> ps' ! i = copy ! draw (k + i)"
proof (induction n arbitrary: k ps' i)
  case 0
  then show ?case by simp
next
  case (Suc n)
  from Suc.prems(1) obtain rest where
    rest: "resample_loop draw copy (Suc k) n = Inr rest" and
    ps': "ps' = copy ! draw k # rest"
    by (auto split: sum.splits if_splits)
  show ?case
  proof (cases i)
    case 0
    with ps' show ?thesis by simp
  next
    case (Suc j)
    with Suc.prems(2) have "j < n" by simp
    from Suc.IH [OF rest this] ps' Suc show ?thesis by simp
  qed
qed

lemma resample_loop_total:
  "(\<forall>i<n. draw (k + i) < length copy) \<Longrightarrow> \<exists>ps'. resample_loop draw copy k n = Inr ps'"
proof (induction n arbitrary: k)
  case 0
  then show ?case by simp
next
  case (Suc n)
  have "\<forall>i<n. draw (Suc k + i) < length copy"
    using Suc.prems by (metis Suc_less_eq add_Suc_shift)
  from Suc.IH [OF this] obtain rest where "resample_loop draw copy (Suc k) n = Inr rest" by blast
  moreover have "draw k < length copy" using Suc.prems by (metis add.right_neutral zero_less_Suc)
  ultimately show ?case by simp
qed

text \<open>
  C9, as the claim states it, fails for a second call of \<open>init\<close>: the loop appends to
  the collection that is already there, so the filter then holds 200 particles while
  \<open>num_particles\<close> is 100.
\<close>

theorem init_twice_counterexample:
  "length (particles (init_r1 mean_sampler 0 0 0 (1, 1, 1)
                       (init_r1 mean_sampler 0 0 0 (1, 1, 1) new_filter)))
   \<noteq> num_particles (init_r1 mean_sampler 0 0 0 (1, 1, 1)
                      (init_r1 mean_sampler 0 0 0 (1, 1, 1) new_filter))"
  by (simp add: init_r1_def init_loop_length new_filter_def)

text \<open>
  C9, amended. After \<open>init\<close> on a newly constructed filter the collection has exactly
  \<open>num_particles\<close> elements (100 in revision 1, 200 in revision 2); \<open>prediction\<close>,
  \<open>updateWeights\<close> and \<open>resample\<close> keep the number of particles whenever they return;
  a call of \<open>init\<close> on any filter adds \<open>num_particles\<close> particles to those present.
\<close>

theorem particle_count:
  "length (particles (init_r1 gauss x y theta std new_filter))
     = num_particles (init_r1 gauss x y theta std new_filter)
   \<and> length (particles (init_r2 gauss x y theta std new_filter))
     = num_particles (init_r2 gauss x y theta std new_filter)
   \<and> length (prediction gauss delta_t std_pos velocity yaw_rate ps) = length ps
   \<and> (updateWeights_r1 sensor_range std_landmark obs lms ps = Inr ps1 \<longrightarrow> length ps1 = length ps)
   \<and> (updateWeights_r2 sensor_range std_landmark obs lms ps = Inr ps2 \<longrightarrow> length ps2 = length ps)
   \<and> (resample weights_dist ps = Inr ps3 \<longrightarrow> length ps3 = length ps)
   \<and> length (particles (init_r1 gauss x y theta std pf))
     = length (particles pf) + num_particles (init_r1 gauss x y theta std pf)
   \<and> length (particles (init_r2 gauss x y theta std pf))
     = length (particles pf) + num_particles (init_r2 gauss x y theta std pf)"
proof -
  have "length ps3 = length ps" if "resample weights_dist ps = Inr ps3"
    using that resample_loop_length [of "weights_dist (map p_weight ps)" ps 0 "length ps" ps3]
    by (simp add: resample_def Let_def)
  then show ?thesis
    by (simp add: init_r1_def init_r2_def init_loop_length new_filter_def
          prediction_def prediction_loop_length updateWeights_r1_length updateWeights_r2_length)
qed

theorem particle_count_witness:
  "updateWeights_r1 50 (1, 1) [] [] three_particles = Inr three_particles
   \<and> updateWeights_r2 50 (1, 1) [] [] three_particles
       = Inr [particle_at 1 1 0 1, particle_at 2 2 0 1, particle_at 3 3 0 1]
   \<and> resample draw_second three_particles
       = Inr [particle_at 2 2 0 1, particle_at 2 2 0 1, particle_at 2 2 0 1]
   \<and> length [particle_at 1 1 0 1, particle_at 2 2 0 1, particle_at 3 3 0 1] = length three_particles
   \<and> length [particle_at 2 2 0 1, particle_at 2 2 0 1, particle_at 2 2 0 1] = length three_particles
   \<and> length (prediction mean_sampler 1 (0, 0, 0) 1 0 three_particles) = length three_particles
   \<and> length (particles (init_r1 mean_sampler 0 0 0 (1, 1, 1) new_filter)) = 100
   \<and> length (particles (init_r2 mean_sampler 0 0 0 (1, 1, 1) new_filter)) = 200"
proof -
  have r1: "updateWeights_r1 50 (1, 1) [] [] three_particles = Inr three_particles"
    by (simp add: three_particles_def)
  have r2: "updateWeights_r2 50 (1, 1) [] [] three_particles
       = Inr [particle_at 1 1 0 1, particle_at 2 2 0 1, particle_at 3 3 0 1]"
    by (simp add: three_particles_def updateWeight_r2_def particle_at_def)
  have rs: "resample draw_second three_particles
       = Inr [particle_at 2 2 0 1, particle_at 2 2 0 1, particle_at 2 2 0 1]"
    by (simp add: three_particles_def resample_def draw_second_def numeral_3_eq_3)
  show ?thesis
    using particle_count [of mean_sampler 0 0 0 "(1, 1, 1)" 1 "(0, 0, 0)" 1 0 three_particles
        50 "(1, 1)" "[]" "[]" three_particles
        "[particle_at 1 1 0 1, particle_at 2 2 0 1, particle_at 3 3 0 1]"
        draw_second "[particle_at 2 2 0 1, particle_at 2 2 0 1, particle_at 2 2 0 1]" new_filter]
      r1 r2 rs
    by (simp add: init_r1_def init_r2_def new_filter_def)
qed

section \<open>Properties of the resampling\<close>

lemma resample_draws:
  assumes "resample weights_dist ps = Inr ps'"
  shows "length ps' = length ps"
    and "k < length ps \<Longrightarrow> ps' ! k = ps ! weights_dist (map p_weight ps) k"
  using assms resample_loop_length [of "weights_dist (map p_weight ps)" ps 0 "length ps" ps']
    resample_loop_nth [of "weights_dist (map p_weight ps)" ps 0 "length ps" ps' k]
  by (simp_all add: resample_def Let_def)

text \<open>
  C8. \<open>resample\<close> builds the distribution from the raw weights of the particles, in
  their order, and replaces the set by as many draws as there were particles: whenever
  the distribution delivers indices in range, \<open>resample\<close> returns, the new set has the
  size of the old one, and its \<open>k\<close>-th particle is the old particle with the index of
  the \<open>k\<close>-th draw. When exactly one particle has a positive weight, all others have
  weight zero and every draw has positive probability \<open>weight ! i / sum_list weight\<close>,
  the new set consists of copies of that particle.
\<close>

theorem resample_draws_from_weights:
  assumes range: "\<forall>k<length ps. weights_dist (map p_weight ps) k < length ps"
  shows "\<exists>ps'. resample weights_dist ps = Inr ps'
           \<and> length ps' = length ps
           \<and> (\<forall>k<length ps. ps' ! k = ps ! weights_dist (map p_weight ps) k)
           \<and> (j < length ps \<and> 0 < p_weight (ps ! j)
                \<and> (\<forall>i<length ps. i \<noteq> j \<longrightarrow> p_weight (ps ! i) = 0)
                \<and> (\<forall>k<length ps.
                      0 < discrete_mass (map p_weight ps) (weights_dist (map p_weight ps) k))
              \<longrightarrow> ps' = replicate (length ps) (ps ! j))"
proof -
  let ?ws = "map p_weight ps"
  let ?draw = "weights_dist ?ws"
  from range have "\<forall>i<length ps. ?draw (0 + i) < length ps" by simp
  from resample_loop_total [OF this] obtain ps' where
    loop: "resample_loop ?draw ps 0 (length ps) = Inr ps'" by blast
  then have run: "resample weights_dist ps = Inr ps'"
    by (simp add: resample_def Let_def)
  have len: "length ps' = length ps"
    by (rule resample_draws(1) [OF run])
  have nth: "ps' ! k = ps ! ?draw k" if "k < length ps" for k
    using that by (rule resample_draws(2) [OF run])
  have "ps' = replicate (length ps) (ps ! j)"
    if j: "j < length ps" and pos: "0 < p_weight (ps ! j)"
      and zero: "\<forall>i<length ps. i \<noteq> j \<longrightarrow> p_weight (ps ! i) = 0"
      and mass: "\<forall>k<length ps. 0 < discrete_mass ?ws (?draw k)"
  proof (rule nth_equalityI)
    show "length ps' = length (replicate (length ps) (ps ! j))" using len by simp
  next
    fix k assume "k < length ps'"
    with len have k: "k < length ps" by simp
    have "?draw k = j"
    proof (rule ccontr)
      assume neq: "?draw k \<noteq> j"
      from range k have inside: "?draw k < length ps" by simp
      with zero neq have "p_weight (ps ! ?draw k) = 0" by simp
      with inside have "discrete_mass ?ws (?draw k) = 0"
        by (simp add: discrete_mass_def)
      moreover from mass k have "0 < discrete_mass ?ws (?draw k)" by blast
      ultimately show False by simp
    qed
    with nth [OF k] k show "ps' ! k = replicate (length ps) (ps ! j) ! k" by simp
  qed
  with run len nth show ?thesis by blast
qed

theorem resample_draws_from_weights_witness:
  "resample draw_reverse weighted_particles
     = Inr [particle_at 3 3 0 3, particle_at 2 2 0 2, particle_at 1 1 0 1]
   \<and> resample draw_second three_particles
     = Inr [particle_at 2 2 0 1, particle_at 2 2 0 1, particle_at 2 2 0 1]"
proof -
  have "\<forall>k<length weighted_particles.
          draw_reverse (map p_weight weighted_particles) k < length weighted_particles"
    by (auto simp: draw_reverse_def weighted_particles_def)
  from resample_draws_from_weights [of weighted_particles draw_reverse 0, OF this] obtain ps' where
    run: "resample draw_reverse weighted_particles = Inr ps'"
    and len: "length ps' = length weighted_particles"
    and nth: "\<forall>k<length weighted_particles.
                ps' ! k = weighted_particles ! draw_reverse (map p_weight weighted_particles) k"
    by blast
  from nth have "ps' ! 0 = particle_at 3 3 0 3" "ps' ! 1 = particle_at 2 2 0 2"
    "ps' ! 2 = particle_at 1 1 0 1"
    by (simp_all add: draw_reverse_def weighted_particles_def)
  with len have "ps' = [particle_at 3 3 0 3, particle_at 2 2 0 2, particle_at 1 1 0 1]"
    by (intro nth_equalityI) (auto simp: weighted_particles_def less_Suc_eq numeral_3_eq_3 numeral_2_eq_2)
  with run have first: "resample draw_reverse weighted_particles
     = Inr [particle_at 3 3 0 3, particle_at 2 2 0 2, particle_at 1 1 0 1]"
    by simp
  have "\<forall>k<length three_particles.
          draw_second (map p_weight three_particles) k < length three_particles"
    by (simp add: draw_second_def three_particles_def)
  from resample_draws_from_weights [of three_particles draw_second 1, OF this] obtain qs' where
    run2: "resample draw_second three_particles = Inr qs'"
    and single: "1 < length three_particles \<and> 0 < p_weight (three_particles ! 1)
                \<and> (\<forall>i<length three_particles. i \<noteq> 1 \<longrightarrow> p_weight (three_particles ! i) = 0)
                \<and> (\<forall>k<length three_particles.
                      0 < discrete_mass (map p_weight three_particles)
                            (draw_second (map p_weight three_particles) k))
              \<longrightarrow> qs' = replicate (length three_particles) (three_particles ! 1)"
    by blast
  have "1 < length three_particles \<and> 0 < p_weight (three_particles ! 1)
                \<and> (\<forall>i<length three_particles. i \<noteq> 1 \<longrightarrow> p_weight (three_particles ! i) = 0)
                \<and> (\<forall>k<length three_particles.
                      0 < discrete_mass (map p_weight three_particles)
                            (draw_second (map p_weight three_particles) k))"
    by (simp add: draw_second_def discrete_mass_def particle_at_def three_particles_def
          nth_Cons split: nat.splits)
  with single have "qs' = replicate (length three_particles) (three_particles ! 1)"
    by blast
  with run2 have "resample draw_second three_particles
     = Inr [particle_at 2 2 0 1, particle_at 2 2 0 1, particle_at 2 2 0 1]"
    by (simp add: three_particles_def numeral_3_eq_3)
  with first show ?thesis by blast
qed

end
